theory Spec2Isabelle
  imports Main "HOL-Library.AList"
begin

section \<open>Overview\<close>

text \<open>
  A model of the backup and restore engine of the command line tool, and of its clone and
  label operations: the functions \<open>backup\<close>, \<open>restore\<close>, \<open>clone\<close> and \<open>label\<close>
  of \<open>index.ts\<close> in its tenant-scoped version (the one that exports per tenant and
  restores dashboards), over the calls of \<open>services/api.ts\<close>.  The earlier version of
  \<open>index.ts\<close> has the same device restore and the same \<open>clone\<close>; where it differs
  (\<open>backup\<close>, the \<open>rpc\<close> branch of \<open>label\<close>) the later version is the one modelled,
  and the widget export of the earlier \<open>backup\<close> is modelled beside the later one.

  An operation is a function from the answers of the platform and of the file system to
  the effects of the run: the calls made and the console lines.  Asynchronous callbacks
  are modelled by what they do before and after their \<open>await\<close>.
\<close>

section \<open>JavaScript values\<close>

text \<open>
  The tool is written in TypeScript over values of type \<open>any\<close>: entity bodies are the
  JSON documents the platform returns.  A value is a JSON value or \<open>undefined\<close> (the
  result of reading a missing property).  Numbers are integers here (identifiers, timestamps
  and error codes; fractions are not modelled).  An object is the list of its properties in
  enumeration order.
\<close>

datatype json =
    JUndefined
  | JNull
  | JBool bool
  | JNum int
  | JStr string
  | JArr "json list"
  | JObj "(string \<times> json) list"

text \<open>
  A thrown value: a \<open>TypeError\<close> of the language (reading a property of \<open>undefined\<close> or
  \<open>null\<close>, calling what is not a function), the error axios rejects with, which carries
  \<open>e.response\<close> (\<open>undefined\<close> when no response arrived), or the error of a file
  system call, which carries a code such as \<open>ENOENT\<close> or \<open>EEXIST\<close> and no response.
\<close>

datatype exn = TypeError | AxiosError json | SystemError string

text \<open>Sequencing of steps that may throw.\<close>

definition andThen :: "exn + 'a \<Rightarrow> ('a \<Rightarrow> exn + 'b) \<Rightarrow> exn + 'b" where
  "andThen m f = (case m of Inl e \<Rightarrow> Inl e | Inr x \<Rightarrow> f x)"

fun mapE :: "('a \<Rightarrow> exn + 'b) \<Rightarrow> 'a list \<Rightarrow> exn + 'b list" where
  "mapE f [] = Inr []"
| "mapE f (x # xs) = andThen (f x) (\<lambda>y. andThen (mapE f xs) (\<lambda>ys. Inr (y # ys)))"

definition nullish :: "json \<Rightarrow> bool" where
  "nullish v = (v = JUndefined \<or> v = JNull)"

text \<open>Decimal rendering of an array index, as property keys are strings.\<close>

definition digit :: "nat \<Rightarrow> char" where
  "digit n = ''0123456789'' ! n"

fun string_of_nat :: "nat \<Rightarrow> string" where
  "string_of_nat n =
     (if n < 10 then [digit n] else string_of_nat (n div 10) @ [digit (n mod 10)])"

declare string_of_nat.simps [simp del]

definition string_of_int :: "int \<Rightarrow> string" where
  "string_of_int i =
     (if i < 0 then CHR ''-'' # string_of_nat (nat (- i)) else string_of_nat (nat i))"

fun index_get :: "json list \<Rightarrow> nat \<Rightarrow> string \<Rightarrow> json" where
  "index_get [] i k = JUndefined"
| "index_get (x # xs) i k = (if string_of_nat i = k then x else index_get xs (Suc i) k)"

fun index_set :: "json list \<Rightarrow> nat \<Rightarrow> string \<Rightarrow> json \<Rightarrow> json list" where
  "index_set [] i k v = []"
| "index_set (x # xs) i k v =
     (if string_of_nat i = k then v # xs else x # index_set xs (Suc i) k v)"

text \<open>
  \<open>field v k\<close> is \<open>v[k]\<close> for a value that is neither \<open>undefined\<close> nor \<open>null\<close>: an own
  property of an object, an element or the length of an array or string, and \<open>undefined\<close>
  otherwise.
\<close>

fun field :: "json \<Rightarrow> string \<Rightarrow> json" where
  "field (JObj fs) k = (case map_of fs k of Some v \<Rightarrow> v | None \<Rightarrow> JUndefined)"
| "field (JArr xs) k =
     (if k = ''length'' then JNum (int (length xs)) else index_get xs 0 k)"
| "field (JStr s) k =
     (if k = ''length'' then JNum (int (length s))
      else index_get (map (\<lambda>c. JStr [c]) s) 0 k)"
| "field v k = JUndefined"

text \<open>\<open>v.k\<close>: a \<open>TypeError\<close> on \<open>undefined\<close> and \<open>null\<close>.\<close>

definition js_get :: "json \<Rightarrow> string \<Rightarrow> exn + json" where
  "js_get v k = (if nullish v then Inl TypeError else Inr (field v k))"

text \<open>\<open>v.k1.k2...\<close>\<close>

fun js_path :: "json \<Rightarrow> string list \<Rightarrow> exn + json" where
  "js_path v [] = Inr v"
| "js_path v (k # ks) = andThen (js_get v k) (\<lambda>c. js_path c ks)"

text \<open>\<open>v?.k\<close>\<close>

definition opt_field :: "json \<Rightarrow> string \<Rightarrow> json" where
  "opt_field v k = (if nullish v then JUndefined else field v k)"

text \<open>
  \<open>v.k = x\<close> in strict mode (the compiled modules are strict): a \<open>TypeError\<close> on
  \<open>undefined\<close>, \<open>null\<close> and on a primitive.  On an object the property keeps its place or
  is appended (the place JavaScript gives a new index-like key is not modelled; nothing
  below depends on it).  On an array an element in range is replaced; any other property
  of an array is not part of its serialised form and is dropped here.
\<close>

fun js_set :: "json \<Rightarrow> string \<Rightarrow> json \<Rightarrow> exn + json" where
  "js_set (JObj fs) k x = Inr (JObj (AList.update k x fs))"
| "js_set (JArr xs) k x = Inr (JArr (index_set xs 0 k x))"
| "js_set v k x = Inl TypeError"

text \<open>
  \<open>v.k1.k2...kn = x\<close>: the object \<open>v.k1...k(n-1)\<close> is read, then its property is set.
  The source mutates the inner object in place; the model rebuilds the path to it.
\<close>

fun js_set_path :: "json \<Rightarrow> string list \<Rightarrow> json \<Rightarrow> exn + json" where
  "js_set_path v [] x = Inr x"
| "js_set_path v [k] x = js_set v k x"
| "js_set_path v (k # ks) x =
     andThen (js_get v k) (\<lambda>c. andThen (js_set_path c ks x) (\<lambda>c'. js_set v k c'))"

text \<open>
  \<open>delete v.k\<close> for the keys the source deletes (\<open>id\<close>, \<open>createdTime\<close>, \<open>tenantId\<close>,
  \<open>lastUpdateTs\<close>), none of which is an element of an array or string.
\<close>

fun js_delete :: "json \<Rightarrow> string \<Rightarrow> exn + json" where
  "js_delete JUndefined k = Inl TypeError"
| "js_delete JNull k = Inl TypeError"
| "js_delete (JObj fs) k = Inr (JObj (AList.delete k fs))"
| "js_delete v k = Inr v"

text \<open>\<open>Object.keys(v)\<close>\<close>

fun js_keys :: "json \<Rightarrow> exn + string list" where
  "js_keys JUndefined = Inl TypeError"
| "js_keys JNull = Inl TypeError"
| "js_keys (JObj fs) = Inr (map fst fs)"
| "js_keys (JArr xs) = Inr (map string_of_nat [0..<length xs])"
| "js_keys (JStr s) = Inr (map string_of_nat [0..<length s])"
| "js_keys v = Inr []"

text \<open>The properties \<open>{...v}\<close> copies.\<close>

fun spread :: "json \<Rightarrow> (string \<times> json) list" where
  "spread (JObj fs) = fs"
| "spread (JArr xs) = zip (map string_of_nat [0..<length xs]) xs"
| "spread (JStr s) = zip (map string_of_nat [0..<length s]) (map (\<lambda>c. JStr [c]) s)"
| "spread v = []"

text \<open>Truthiness, \<open>a || b\<close> and \<open>a ?? b\<close>.\<close>

fun truthy :: "json \<Rightarrow> bool" where
  "truthy JUndefined = False"
| "truthy JNull = False"
| "truthy (JBool b) = b"
| "truthy (JNum n) = (n \<noteq> 0)"
| "truthy (JStr s) = (s \<noteq> [])"
| "truthy (JArr xs) = True"
| "truthy (JObj fs) = True"

definition js_or :: "json \<Rightarrow> json \<Rightarrow> json" where
  "js_or a b = (if truthy a then a else b)"

definition js_coalesce :: "json \<Rightarrow> json \<Rightarrow> json" where
  "js_coalesce a b = (if nullish a then b else a)"


fun join_with :: "string \<Rightarrow> string list \<Rightarrow> string" where
  "join_with sep [] = []"
| "join_with sep [w] = w"
| "join_with sep (w # ws) = w @ sep @ join_with sep ws"

text \<open>String conversion, as in a template literal or a computed property key.\<close>

fun to_string :: "json \<Rightarrow> string" where
  "to_string JUndefined = ''undefined''"
| "to_string JNull = ''null''"
| "to_string (JBool b) = (if b then ''true'' else ''false'')"
| "to_string (JNum n) = string_of_int n"
| "to_string (JStr s) = s"
| "to_string (JArr xs) =
     join_with '','' (map (\<lambda>x. if nullish x then [] else to_string x) xs)"
| "to_string (JObj fs) = ''[object Object]''"

text \<open>\<open>s.split(c)\<close> for a one-character separator.\<close>

fun split_on :: "char \<Rightarrow> string \<Rightarrow> string list" where
  "split_on c [] = [[]]"
| "split_on c (x # xs) =
     (if x = c then [] # split_on c xs
      else (case split_on c xs of [] \<Rightarrow> [[x]] | w # ws \<Rightarrow> (x # w) # ws))"

section \<open>Paths\<close>

text \<open>
  \<open>path.join\<close> of Node.js on a POSIX system: the non-empty arguments are joined by
  \<open>/\<close> and the result is normalised.  \<open>normalizeString\<close> goes through the segments
  between separators: an empty segment and \<open>.\<close> are dropped, \<open>..\<close> removes the
  segment before it (or is kept, in a relative path, when there is none to remove), any
  other segment is kept.  \<open>res\<close> holds the segments kept so far, the last one first.
  \<open>posix_normalize\<close> is \<open>path.normalize\<close>.
\<close>

fun normalizeString :: "bool \<Rightarrow> string list \<Rightarrow> string list \<Rightarrow> string list" where
  "normalizeString allowAboveRoot res [] = rev res"
| "normalizeString allowAboveRoot res (segment # segments) =
     (if segment = [] \<or> segment = ''.'' then normalizeString allowAboveRoot res segments
      else if segment = ''..'' then
        (case res of
           [] \<Rightarrow>
             normalizeString allowAboveRoot (if allowAboveRoot then [segment] else []) segments
         | lastSegment # kept \<Rightarrow>
             if lastSegment = ''..''
             then normalizeString allowAboveRoot
                    (if allowAboveRoot then segment # res else res) segments
             else normalizeString allowAboveRoot kept segments)
      else normalizeString allowAboveRoot (segment # res) segments)"

definition posix_normalize :: "string \<Rightarrow> string" where
  "posix_normalize p =
     (if p = [] then ''.''
      else
        (let isAbsolute = (hd p = CHR ''/'');
             trailingSeparator = (last p = CHR ''/'');
             res = join_with ''/'' (normalizeString (\<not> isAbsolute) [] (split_on CHR ''/'' p))
         in if res = [] then (if isAbsolute then ''/'' else if trailingSeparator then ''./'' else ''.'')
            else (if isAbsolute then ''/'' else []) @ res
                   @ (if trailingSeparator then ''/'' else [])))"

definition path_join :: "string list \<Rightarrow> string" where
  "path_join args =
     (case filter (\<lambda>arg. arg \<noteq> []) args of
        [] \<Rightarrow> ''.''
      | joined \<Rightarrow> posix_normalize (join_with ''/'' joined))"

section \<open>The platform, the file system and the effects of a run\<close>

datatype scope = SERVER_SCOPE | SHARED_SCOPE | CLIENT_SCOPE

text \<open>
  The calls of \<open>services/api.ts\<close> the modelled operations make, with their arguments,
  and the two calls of the file system the export makes: \<open>WriteFile path body\<close> is
  \<open>writeFile(path, JSON.stringify(body))\<close> (the later version indents the text by two
  spaces, which parses to the same body), \<open>MakeDir path recursive\<close> is \<open>mkdir(path)\<close>
  or \<open>mkdir(path, {recursive: true})\<close>.
\<close>

datatype request =
    GetDevices json
  | SaveDevice json json
  | GetDeviceCredentials json
  | SaveDeviceCredentials json
  | GetDeviceAttributesByScope json scope
  | GetDeviceAttributes json "string list"
  | SaveDeviceAttributes json scope json
  | GetCustomers json
  | GetDashboards json
  | GetDashboardById json
  | SaveDashboard json
  | AxiosPost string json
  | GetWidgetBundles
  | GetWidgetBundlesData json bool
  | GetRuleChainById json
  | GetCustomerById json
  | GetTenantById json
  | GetEntityUsers string json
  | GetUserById json
  | WriteFile string json
  | MakeDir string bool

text \<open>
  The platform answers a call with the \<open>data\<close> of its response, or the call rejects.
  Within one operation it answers equal calls equally; the operations modelled here repeat
  a call only when two aliases or two customers of one dashboard carry the same name.
  The file system accepts a call of its own, or rejects it (a directory that is missing
  or exists already, a name it refuses).
\<close>

type_synonym platform = "request \<Rightarrow> exn + json"

text \<open>
  What a run does, in order: calls (of the platform and of the file system), console
  output (of a value, or of a caught error) and \<open>process.exit\<close>.
\<close>

datatype effect =
    Call request
  | ConsoleLog json
  | ConsoleLogError exn
  | Exit nat

type_synonym run = "effect list \<times> (exn + unit)"

text \<open>\<open>a; b\<close>: \<open>b\<close> runs when \<open>a\<close> did not throw.\<close>

definition seq :: "run \<Rightarrow> run \<Rightarrow> run" where
  "seq a b = (case snd a of Inl e \<Rightarrow> a | Inr u \<Rightarrow> (fst a @ fst b, snd b))"

text \<open>\<open>e.response?.data?.errorCode\<close> and \<open>e.response?.data?.message\<close>\<close>

fun response :: "exn \<Rightarrow> json" where
  "response TypeError = JUndefined"
| "response (AxiosError r) = r"
| "response (SystemError code) = JUndefined"

definition errorCode :: "exn \<Rightarrow> json" where
  "errorCode e = opt_field (opt_field (response e) ''data'') ''errorCode''"

definition message :: "exn \<Rightarrow> json" where
  "message e = opt_field (opt_field (response e) ''data'') ''message''"

definition listParams :: "json \<Rightarrow> json" where
  "listParams name = JObj [(''pageSize'', JNum 1), (''textSearch'', name)]"


section \<open>Restore: devices\<close>

text \<open>
  A device file as the exporter writes it:
  \<open>{accessToken, attributes: {server, shared, client}}\<close>, each scope an array of
  \<open>{key, value}\<close> entries.  The access token is whatever the file holds (\<open>undefined\<close>
  when it holds none).  A file of another shape makes the callback throw; such files are
  outside this type.
\<close>

record device_attributes =
  server :: "(string \<times> json) list"
  shared :: "(string \<times> json) list"
  client :: "(string \<times> json) list"

record device_file =
  accessToken :: json
  attributes :: device_attributes

text \<open>\<open>file.split('.').slice(0, -1).join('.')\<close>\<close>

definition baseName :: "string \<Rightarrow> string" where
  "baseName fileName = join_with ''.'' (butlast (split_on CHR ''.'' fileName))"

definition newDevice :: "string \<Rightarrow> json" where
  "newDevice deviceName = JObj [(''name'', JStr deviceName), (''type'', JStr ''AT_CORE'')]"

text \<open>The inner \<open>try\<close> of the duplicate branch: read the credentials, write them back.\<close>

definition repairCredentials :: "platform \<Rightarrow> json \<Rightarrow> json \<Rightarrow> effect list" where
  "repairCredentials P deviceId token =
     (let g = GetDeviceCredentials deviceId in
      case P g of
        Inl e \<Rightarrow> [Call g, ConsoleLog (message e)]
      | Inr credentials \<Rightarrow>
          (let s = SaveDeviceCredentials
                     (JObj (AList.update ''credentialsId'' token (spread credentials))) in
           case P s of
             Inl e \<Rightarrow> [Call g, Call s, ConsoleLog (message e)]
           | Inr u \<Rightarrow> [Call g, Call s]))"

text \<open>
  The \<open>try\<close>/\<open>catch\<close> around \<open>api.saveDevice\<close>: the device id the attribute writes
  will use (\<open>null\<close> when nothing set it), or what the \<open>catch\<close> block itself threw.
\<close>

definition establishIdentity :: "platform \<Rightarrow> string \<Rightarrow> json \<Rightarrow> effect list \<times> (exn + json)" where
  "establishIdentity P deviceName token =
     (let c = SaveDevice (newDevice deviceName) token in
      case andThen (P c) (\<lambda>data. js_path data [''id'', ''id'']) of
        Inr deviceId \<Rightarrow> ([Call c], Inr deviceId)
      | Inl e \<Rightarrow>
          if errorCode e = JNum 31 then
            (let q = GetDevices (listParams (JStr deviceName)) in
             case andThen (P q) (\<lambda>d. js_path d [''data'', ''0'', ''id'', ''id'']) of
               Inl e' \<Rightarrow> ([Call c, Call q], Inl e')
             | Inr deviceId \<Rightarrow>
                 ([Call c, Call q] @ repairCredentials P deviceId token, Inr deviceId))
          else ([Call c, ConsoleLog (message e)], Inr JNull))"

definition getAttributesObject :: "(string \<times> json) list \<Rightarrow> json" where
  "getAttributesObject attributesArray =
     JObj (fold (\<lambda>(k, v) attributesObject. AList.update k v attributesObject)
             attributesArray [])"

definition saveScope :: "platform \<Rightarrow> json \<Rightarrow> scope \<Rightarrow> (string \<times> json) list \<Rightarrow> run" where
  "saveScope P deviceId sc attributesArray =
     (if length attributesArray > 0 then
        (let r = SaveDeviceAttributes deviceId sc (getAttributesObject attributesArray) in
         ([Call r], case P r of Inl e \<Rightarrow> Inl e | Inr u \<Rightarrow> Inr ()))
      else ([], Inr ()))"

definition restoreAttributes :: "platform \<Rightarrow> json \<Rightarrow> device_attributes \<Rightarrow> run" where
  "restoreAttributes P deviceId a =
     seq (saveScope P deviceId SERVER_SCOPE (server a))
       (seq (saveScope P deviceId SHARED_SCOPE (shared a))
          (saveScope P deviceId CLIENT_SCOPE (client a)))"

text \<open>
  The callback run for one file of \<open>devices/\<close>.  The result says whether the callback
  ran to its end or threw; the enclosing \<open>try\<close> discards what was thrown (the earlier
  version has no enclosing \<open>try\<close>; the effects are the same).
\<close>

definition restoreDevice :: "platform \<Rightarrow> string \<Rightarrow> device_file \<Rightarrow> run" where
  "restoreDevice P fileName device =
     (case establishIdentity P (baseName fileName) (accessToken device) of
        (t, Inl e) \<Rightarrow> (t, Inl e)
      | (t, Inr deviceId) \<Rightarrow>
          seq (t, Inr ()) (restoreAttributes P deviceId (attributes device)))"

text \<open>The stored array of a scope.\<close>

fun scopeArray :: "scope \<Rightarrow> device_attributes \<Rightarrow> (string \<times> json) list" where
  "scopeArray SERVER_SCOPE a = server a"
| "scopeArray SHARED_SCOPE a = shared a"
| "scopeArray CLIENT_SCOPE a = client a"

section \<open>Restore: dashboards\<close>

text \<open>\<open>delete dashboard.id; delete dashboard.createdTime; delete dashboard.tenantId\<close>\<close>

definition stripIds :: "json \<Rightarrow> exn + json" where
  "stripIds dashboard =
     andThen (js_delete dashboard ''id'') (\<lambda>d.
     andThen (js_delete d ''createdTime'') (\<lambda>d.
     js_delete d ''tenantId''))"

text \<open>
  \<open>dashboard.configuration.entityAliases[key]\<close>, and below it
  \<open>.filter.singleEntity.entityType\<close> and \<open>.filter.singleEntity.id\<close>.
\<close>

definition aliasPath :: "string \<Rightarrow> string list" where
  "aliasPath key = [''configuration'', ''entityAliases'', key]"

definition aliasTypePath :: "string \<Rightarrow> string list" where
  "aliasTypePath key = aliasPath key @ [''filter'', ''singleEntity'', ''entityType'']"

definition aliasIdPath :: "string \<Rightarrow> string list" where
  "aliasIdPath key = aliasPath key @ [''filter'', ''singleEntity'', ''id'']"

text \<open>
  The callback mapped over \<open>Object.keys(dashboard.configuration.entityAliases)\<close> is
  asynchronous.  Up to its \<open>await\<close> it runs at once for every key, on the dashboard as
  parsed: it tests the filter and, for a single-entity device alias, reads the alias name
  and issues the lookup.  A \<open>TypeError\<close> here rejects that key's promise.
\<close>

definition aliasDeviceName :: "json \<Rightarrow> string \<Rightarrow> exn + json option" where
  "aliasDeviceName dashboard key =
     andThen (js_path dashboard (aliasPath key @ [''filter'', ''type''])) (\<lambda>ty.
       if ty = JStr ''singleEntity'' then
         andThen (js_path dashboard (aliasTypePath key)) (\<lambda>et.
             if et = JStr ''DEVICE'' then
               andThen (js_path dashboard (aliasPath key @ [''alias''])) (\<lambda>deviceName.
                 Inr (Some deviceName))
             else Inr None)
       else Inr None)"

text \<open>
  The rest of the callback, run when the lookup has answered: \<open>devices[0]\<close>, when there is
  one, gives the alias its id.
\<close>

definition aliasResolved :: "platform \<Rightarrow> string \<Rightarrow> json \<Rightarrow> json \<Rightarrow> exn + json" where
  "aliasResolved P key deviceName dashboard =
     andThen (P (GetDevices (listParams deviceName))) (\<lambda>d.
     andThen (js_path d [''data'', ''0'']) (\<lambda>first.
       if truthy first then
         andThen (js_path first [''id'', ''id'']) (\<lambda>live.
           js_set_path dashboard (aliasIdPath key) live)
       else Inr dashboard))"

definition aliasCalls :: "(exn + json option) list \<Rightarrow> effect list" where
  "aliasCalls names =
     concat (map (\<lambda>r. case r of
                          Inr (Some deviceName) \<Rightarrow> [Call (GetDevices (listParams deviceName))]
                        | _ \<Rightarrow> []) names)"

text \<open>
  \<open>await Promise.all(...)\<close>: it throws when a promise rejected.  The callbacks write to
  different aliases, so the order in which the lookups answer does not show in the result;
  they are run here in the order of the keys.
\<close>

fun aliasContinuations ::
  "platform \<Rightarrow> (string \<Rightarrow> exn + json option) \<Rightarrow> string list \<Rightarrow> json \<Rightarrow> exn + json" where
  "aliasContinuations P f [] dashboard = Inr dashboard"
| "aliasContinuations P f (key # keys) dashboard =
     (case f key of
        Inl e \<Rightarrow> Inl e
      | Inr None \<Rightarrow> aliasContinuations P f keys dashboard
      | Inr (Some deviceName) \<Rightarrow>
          andThen (aliasResolved P key deviceName dashboard) (aliasContinuations P f keys))"

definition restoreAliases :: "platform \<Rightarrow> json \<Rightarrow> effect list \<times> (exn + json)" where
  "restoreAliases P dashboard =
     (case andThen (js_path dashboard [''configuration'', ''entityAliases'']) js_keys of
        Inl e \<Rightarrow> ([], Inl e)
      | Inr keys \<Rightarrow>
          (aliasCalls (map (aliasDeviceName dashboard) keys),
           aliasContinuations P (aliasDeviceName dashboard) keys dashboard))"

text \<open>\<open>array.splice(index, 1)\<close>\<close>

definition splice1 :: "nat \<Rightarrow> json list \<Rightarrow> json list" where
  "splice1 index xs = take index xs @ drop (Suc index) xs"

text \<open>
  The callback mapped over \<open>dashboard.assignedCustomers\<close>, from its \<open>await\<close> on: it was
  started for the entry that stood at \<open>index\<close> when \<open>map\<close> ran, and works on the list as it
  is when the lookup answers.
\<close>

definition customerResolved :: "platform \<Rightarrow> nat \<Rightarrow> json \<Rightarrow> json \<Rightarrow> exn + json" where
  "customerResolved P index title dashboard =
     andThen (P (GetCustomers (listParams title))) (\<lambda>d.
     andThen (js_path d [''data'', ''0'']) (\<lambda>first.
       if truthy first then
         andThen (js_path first [''id'', ''id'']) (\<lambda>live.
           js_set_path dashboard
             [''assignedCustomers'', string_of_nat index, ''customerId'', ''id''] live)
       else
         andThen (js_get dashboard ''assignedCustomers'') (\<lambda>assigned.
           case assigned of
             JArr xs \<Rightarrow> js_set dashboard ''assignedCustomers'' (JArr (splice1 index xs))
           | _ \<Rightarrow> Inl TypeError)))"

text \<open>
  The callbacks resume in the order the lookups answer, \<open>schedule\<close> (the indices, each
  once); \<open>titles\<close> holds what each callback read before its \<open>await\<close>.
\<close>

fun customerContinuations ::
  "platform \<Rightarrow> (exn + json) list \<Rightarrow> nat list \<Rightarrow> json \<Rightarrow> exn + json" where
  "customerContinuations P titles [] dashboard = Inr dashboard"
| "customerContinuations P titles (index # schedule) dashboard =
     (if index < length titles then
        (case titles ! index of
           Inl e \<Rightarrow> Inl e
         | Inr title \<Rightarrow>
             andThen (customerResolved P index title dashboard)
               (customerContinuations P titles schedule))
      else customerContinuations P titles schedule dashboard)"

definition customerCalls :: "(exn + json) list \<Rightarrow> effect list" where
  "customerCalls titles =
     concat (map (\<lambda>r. case r of
                          Inr title \<Rightarrow> [Call (GetCustomers (listParams title))]
                        | Inl e \<Rightarrow> []) titles)"

definition restoreCustomers :: "platform \<Rightarrow> nat list \<Rightarrow> json \<Rightarrow> effect list \<times> (exn + json)" where
  "restoreCustomers P schedule dashboard =
     (case js_get dashboard ''assignedCustomers'' of
        Inl e \<Rightarrow> ([], Inl e)
      | Inr assigned \<Rightarrow>
          if truthy assigned then
            (case assigned of
               JArr entries \<Rightarrow>
                 (let titles = map (\<lambda>entry. js_get entry ''title'') entries in
                  (customerCalls titles,
                   if list_ex isl titles then Inl TypeError
                   else customerContinuations P titles schedule dashboard))
             | _ \<Rightarrow> ([], Inl TypeError))
          else ([], Inr dashboard))"

text \<open>
  The callback run for one file of \<open>dashboards/\<close>, on the parsed content of the file.
  The enclosing \<open>try\<close> discards what was thrown.
\<close>

definition restoreDashboard :: "platform \<Rightarrow> nat list \<Rightarrow> json \<Rightarrow> run" where
  "restoreDashboard P schedule content =
     (case stripIds content of
        Inl e \<Rightarrow> ([], Inl e)
      | Inr dashboard \<Rightarrow>
          (case restoreAliases P dashboard of
             (t1, Inl e) \<Rightarrow> (t1, Inl e)
           | (t1, Inr d1) \<Rightarrow>
               (case restoreCustomers P schedule d1 of
                  (t2, Inl e) \<Rightarrow> (t1 @ t2, Inl e)
                | (t2, Inr d2) \<Rightarrow>
                    (t1 @ t2 @ [Call (SaveDashboard d2)],
                     case P (SaveDashboard d2) of Inl e \<Rightarrow> Inl e | Inr u \<Rightarrow> Inr ()))))"


section \<open>Export\<close>

text \<open>
  The export of one tenant's categories, each a fan-out over the listing of the category.
  \<open>tenantDir\<close> is the tenant's directory, \<open>tenantId\<close> is \<open>account.tenantId\<close> of the
  session the export runs under.  A file name is a template literal over the entity's
  title or name, handed to \<open>path.join\<close> as its last argument.
\<close>

definition jsonFile :: "json \<Rightarrow> string" where
  "jsonFile name = to_string name @ ''.json''"

text \<open>
  \<open>Promise.all\<close> over a fan-out: every member runs; the whole rejects when one did.
  The members run concurrently; their effects are listed member by member.  Where the
  source attaches no handler to a rejection (a member of a fan-out, one of the four
  requests of \<open>backupDevice\<close>), the category's promise stays pending; the model reports
  the rejection as the result.
\<close>

definition fanOut :: "run list \<Rightarrow> run" where
  "fanOut runs =
     (concat (map fst runs),
      case filter isl (map snd runs) of [] \<Rightarrow> Inr () | r # rs \<Rightarrow> r)"

text \<open>
  The shape shared by \<open>backupRuleChain\<close>, \<open>backupWidgetBundle\<close>, \<open>backupDashboard\<close>,
  \<open>backupCustomerUsers\<close>, \<open>backupTenantUsers\<close> and the first members of
  \<open>backupCustomer\<close> and \<open>backupTenant\<close>: one request, and on its answer
  \<open>writeFile(path, JSON.stringify(data, undefined, 2)).then(resolve)\<close>; a rejection of
  the request is logged and passed on.  A rejection of \<open>writeFile\<close> has no handler: the
  promise stays pending, which the model reports as that rejection.
\<close>

definition fetchAndWrite :: "platform \<Rightarrow> request \<Rightarrow> string \<Rightarrow> run" where
  "fetchAndWrite P g path =
     (case P g of
        Inr fetched \<Rightarrow>
          ([Call g, Call (WriteFile path fetched)],
           case P (WriteFile path fetched) of Inl e \<Rightarrow> Inl e | Inr u \<Rightarrow> Inr ())
      | Inl e \<Rightarrow> ([Call g, ConsoleLogError e], Inl e))"

definition backupRuleChain :: "platform \<Rightarrow> string \<Rightarrow> json \<Rightarrow> run" where
  "backupRuleChain P tenantDir ruleChain =
     (case js_path ruleChain [''id'', ''id''] of
        Inl e \<Rightarrow> ([], Inl e)
      | Inr ruleChainId \<Rightarrow>
          fetchAndWrite P (GetRuleChainById ruleChainId)
            (path_join [tenantDir, ''ruleChains'', jsonFile (field ruleChain ''name'')]))"

definition backupWidgetBundle :: "platform \<Rightarrow> string \<Rightarrow> json \<Rightarrow> run" where
  "backupWidgetBundle P tenantDir widgetBundle =
     (case js_get widgetBundle ''alias'' of
        Inl e \<Rightarrow> ([], Inl e)
      | Inr bundleAlias \<Rightarrow>
          fetchAndWrite P (GetWidgetBundlesData bundleAlias False)
            (path_join [tenantDir, ''widgets'', jsonFile (field widgetBundle ''title'')]))"



definition backupDashboard :: "platform \<Rightarrow> string \<Rightarrow> json \<Rightarrow> run" where
  "backupDashboard P tenantDir dashboard =
     (case js_path dashboard [''id'', ''id''] of
        Inl e \<Rightarrow> ([], Inl e)
      | Inr dashboardId \<Rightarrow>
          fetchAndWrite P (GetDashboardById dashboardId)
            (path_join [tenantDir, ''dashboards'', jsonFile (field dashboard ''name'')]))"

text \<open>\<open>backupCustomerUsers\<close> and \<open>backupTenantUsers\<close>, which are the same function.\<close>

definition backupUser :: "platform \<Rightarrow> string \<Rightarrow> json \<Rightarrow> run" where
  "backupUser P dir user =
     (case js_path user [''id'', ''id''] of
        Inl e \<Rightarrow> ([], Inl e)
      | Inr userId \<Rightarrow>
          fetchAndWrite P (GetUserById userId) (path_join [dir, jsonFile (field user ''name'')]))"

text \<open>
  \<open>users[0]?.id.id\<close>, which \<open>backupTenant\<close> notes as the tenant's first administrator
  (for the token requested later; the map itself is not part of the effects).
\<close>

definition firstAdminId :: "json \<Rightarrow> exn + json" where
  "firstAdminId users =
     (if nullish users then Inl TypeError
      else if nullish (field users ''0'') then Inr JUndefined
      else js_path (field users ''0'') [''id'', ''id''])"

text \<open>
  The second member of \<open>backupCustomer\<close> and of \<open>backupTenant\<close>: list the users of
  the entity, make their directory, start the export of each user.  \<open>noted\<close> is what
  the callback evaluates on the list before it makes the directory (nothing for a
  customer, \<open>firstAdminId\<close> for a tenant); \<open>recursive\<close> is the option \<open>mkdir\<close> is
  given.  A rejection of \<open>mkdir\<close>, or a list of users that is no array, has no handler
  (reported as the result).  The exports of the users are started and not awaited: what
  they reject with is not part of the result.
\<close>

definition backupUsersOf ::
  "platform \<Rightarrow> string \<Rightarrow> json \<Rightarrow> (json \<Rightarrow> exn + json) \<Rightarrow> bool \<Rightarrow> string \<Rightarrow> run" where
  "backupUsersOf P entity owner noted recursive dir =
     (case js_path owner [''id'', ''id''] of
        Inl e \<Rightarrow> ([], Inl e)
      | Inr ownerId \<Rightarrow>
          (let g = GetEntityUsers entity ownerId in
           case andThen (P g) (\<lambda>d.
                andThen (js_get d ''data'') (\<lambda>users.
                andThen (noted users) (\<lambda>n. Inr users))) of
             Inl e \<Rightarrow> ([Call g, ConsoleLogError e], Inl e)
           | Inr users \<Rightarrow>
               (case P (MakeDir dir recursive) of
                  Inl e \<Rightarrow> ([Call g, Call (MakeDir dir recursive)], Inl e)
                | Inr u \<Rightarrow>
                    (case users of
                       JArr us \<Rightarrow>
                         ([Call g, Call (MakeDir dir recursive)]
                            @ concat (map (\<lambda>user. fst (backupUser P dir user)) us),
                          Inr ())
                     | _ \<Rightarrow> ([Call g, Call (MakeDir dir recursive)], Inl TypeError)))))"

definition backupCustomer :: "platform \<Rightarrow> string \<Rightarrow> json \<Rightarrow> run" where
  "backupCustomer P tenantDir customer =
     fanOut
       [case js_path customer [''id'', ''id''] of
          Inl e \<Rightarrow> ([], Inl e)
        | Inr customerId \<Rightarrow>
            fetchAndWrite P (GetCustomerById customerId)
              (path_join [tenantDir, ''customers'', jsonFile (field customer ''name'')]),
        backupUsersOf P ''customer'' customer (\<lambda>users. Inr JUndefined) False
          (path_join [tenantDir, ''customers'', to_string (field customer ''name'')])]"

text \<open>\<open>backupTenant\<close>, run by a system administrator under \<open>baseDir\<close>.\<close>

definition backupTenant :: "platform \<Rightarrow> string \<Rightarrow> json \<Rightarrow> run" where
  "backupTenant P baseDir tenant =
     fanOut
       [case js_path tenant [''id'', ''id''] of
          Inl e \<Rightarrow> ([], Inl e)
        | Inr tenantId \<Rightarrow>
            fetchAndWrite P (GetTenantById tenantId)
              (path_join [baseDir, ''tenants'', jsonFile (field tenant ''name'')]),
        backupUsersOf P ''tenant'' tenant firstAdminId True
          (path_join [baseDir, ''tenants'', to_string (field tenant ''name''), ''tenantAdmins''])]"

text \<open>
  \<open>attributes.forEach(item => { delete item.lastUpdateTs })\<close>: the receiver must be an
  array.
\<close>

definition dropLastUpdateTs :: "json \<Rightarrow> exn + json" where
  "dropLastUpdateTs attributeList =
     (case attributeList of
        JArr items \<Rightarrow>
          andThen (mapE (\<lambda>item. js_delete item ''lastUpdateTs'') items) (\<lambda>items'.
            Inr (JArr items'))
      | _ \<Rightarrow> Inl TypeError)"

text \<open>
  \<open>backupDevice\<close>: the three attribute scopes and the credentials are requested together;
  when all four answered, the composite record is written.  Nothing handles a rejection
  here (of a request, of the callback, of \<open>writeFile\<close>); it is reported as the result.
\<close>

definition backupDevice :: "platform \<Rightarrow> string \<Rightarrow> json \<Rightarrow> run" where
  "backupDevice P tenantDir device =
     (case js_path device [''id'', ''id''] of
        Inl e \<Rightarrow> ([], Inl e)
      | Inr deviceId \<Rightarrow>
          (let calls = [GetDeviceAttributesByScope deviceId SERVER_SCOPE,
                        GetDeviceAttributesByScope deviceId SHARED_SCOPE,
                        GetDeviceAttributesByScope deviceId CLIENT_SCOPE,
                        GetDeviceCredentials deviceId] in
           case andThen (P (GetDeviceAttributesByScope deviceId SERVER_SCOPE)) (\<lambda>serverData.
                andThen (P (GetDeviceAttributesByScope deviceId SHARED_SCOPE)) (\<lambda>sharedData.
                andThen (P (GetDeviceAttributesByScope deviceId CLIENT_SCOPE)) (\<lambda>clientData.
                andThen (P (GetDeviceCredentials deviceId)) (\<lambda>credentials.
                andThen (dropLastUpdateTs serverData) (\<lambda>serverAttributes.
                andThen (dropLastUpdateTs sharedData) (\<lambda>sharedAttributes.
                andThen (dropLastUpdateTs clientData) (\<lambda>clientAttributes.
                andThen (js_get credentials ''credentialsId'') (\<lambda>token.
                  Inr (JObj [(''accessToken'', token),
                             (''attributes'',
                              JObj [(''server'', serverAttributes),
                                    (''shared'', sharedAttributes),
                                    (''client'', clientAttributes)])]))))))))) of
             Inl e \<Rightarrow> (map Call calls, Inl e)
           | Inr written \<Rightarrow>
               (let w = WriteFile (path_join [tenantDir, ''devices'', jsonFile (field device ''name'')])
                          written in
                (map Call calls @ [Call w],
                 case P w of Inl e \<Rightarrow> Inl e | Inr u \<Rightarrow> Inr ()))))"


subsection \<open>The widget export of the earlier version\<close>




section \<open>Clone and label\<close>

text \<open>
  Both operations start by looking the dashboard and the device up by name; a lookup with
  no first entry prints a line and exits with status 1.  Nothing catches what these two
  operations throw.
\<close>

definition notFound :: "string \<Rightarrow> string \<Rightarrow> effect list" where
  "notFound kind name =
     [ConsoleLog (JStr (kind @ '' '' @ name @ '' not found!'')), Exit 1]"

text \<open>
  The body handed to \<open>axios.post\<close> by \<open>clone\<close>: the first alias gets the device's id and
  name, the dashboard its new name, and \<open>id\<close> is deleted.
\<close>

definition cloneBody :: "json \<Rightarrow> json \<Rightarrow> json \<Rightarrow> exn + json" where
  "cloneBody device clonedDashboardName dashboardData =
     andThen (andThen (js_path dashboardData [''configuration'', ''entityAliases'']) js_keys)
       (\<lambda>keys.
     (let dashboardEntityAliasID = (case keys of [] \<Rightarrow> to_string JUndefined | k # ks \<Rightarrow> k) in
     andThen (js_path device [''id'', ''id'']) (\<lambda>live.
     andThen (js_set_path dashboardData (aliasIdPath dashboardEntityAliasID) live) (\<lambda>d1.
     andThen (js_get device ''name'') (\<lambda>deviceName.
     andThen (js_set_path d1 (aliasPath dashboardEntityAliasID @ [''alias'']) deviceName) (\<lambda>d2.
     andThen (js_set_path d2 [''configuration'', ''states'', ''default'', ''name'']
                clonedDashboardName) (\<lambda>d3.
     andThen (js_set d3 ''title'' clonedDashboardName) (\<lambda>d4.
     andThen (js_set d4 ''name'' clonedDashboardName) (\<lambda>d5.
     js_delete d5 ''id'')))))))))"

text \<open>
  \<open>clone(dashboardName, deviceName, name)\<close>; \<open>name\<close> is \<open>undefined\<close> when the option is
  not given.
\<close>

definition clone :: "platform \<Rightarrow> string \<Rightarrow> string \<Rightarrow> json \<Rightarrow> run" where
  "clone P dashboardName deviceName name =
     (let q1 = GetDashboards (listParams (JStr dashboardName)) in
      case andThen (P q1) (\<lambda>d. js_path d [''data'', ''0'']) of
        Inl e \<Rightarrow> ([Call q1], Inl e)
      | Inr dashboard \<Rightarrow>
          if \<not> truthy dashboard then (Call q1 # notFound ''Dashboard'' dashboardName, Inr ())
          else
            (let q2 = GetDevices (listParams (JStr deviceName)) in
             case andThen (P q2) (\<lambda>d. js_path d [''data'', ''0'']) of
               Inl e \<Rightarrow> ([Call q1, Call q2], Inl e)
             | Inr device \<Rightarrow>
                 if \<not> truthy device then
                   ([Call q1, Call q2] @ notFound ''Device'' deviceName, Inr ())
                 else
                   (let clonedDashboardName = js_or name (field device ''name'') in
                    case js_path dashboard [''id'', ''id''] of
                      Inl e \<Rightarrow> ([Call q1, Call q2], Inl e)
                    | Inr dashboardId \<Rightarrow>
                        (let q3 = GetDashboardById dashboardId in
                         case andThen (P q3) (cloneBody device clonedDashboardName) of
                           Inl e \<Rightarrow> ([Call q1, Call q2, Call q3], Inl e)
                         | Inr body \<Rightarrow>
                             (let post = AxiosPost ''dashboard'' body in
                              case P post of
                                Inl e \<Rightarrow> ([Call q1, Call q2, Call q3, Call post], Inl e)
                              | Inr u \<Rightarrow>
                                  ([Call q1, Call q2, Call q3, Call post,
                                    ConsoleLog (JStr (''Dashboard '' @ to_string clonedDashboardName
                                                      @ '' created successfully''))],
                                   Inr ()))))))"

text \<open>\<open>labels[key]\<close> for a key that is any value.\<close>

definition labelOf :: "json \<Rightarrow> json \<Rightarrow> exn + json" where
  "labelOf labels key = js_get labels (to_string key)"

text \<open>
  The inner \<open>dataKeys.forEach(({ name }, j) => ...)\<close> of datasource \<open>i\<close>, from key \<open>j\<close> on.
\<close>

fun relabelKeys :: "json \<Rightarrow> nat \<Rightarrow> nat \<Rightarrow> json list \<Rightarrow> json \<Rightarrow> exn + json" where
  "relabelKeys labels i j [] widget = Inr widget"
| "relabelKeys labels i j (dataKey # dataKeys) widget =
     andThen (js_get dataKey ''name'') (\<lambda>name.
     andThen (labelOf labels name) (\<lambda>label.
     andThen (js_path widget [''config'', ''datasources'', string_of_nat i, ''dataKeys'',
                              string_of_nat j, ''label'']) (\<lambda>old.
     andThen (js_set_path widget [''config'', ''datasources'', string_of_nat i, ''dataKeys'',
                                  string_of_nat j, ''label''] (js_or label old)) (\<lambda>widget'.
     relabelKeys labels i (Suc j) dataKeys widget'))))"

text \<open>The outer \<open>datasources.forEach(({ dataKeys }, i) => ...)\<close>, from datasource \<open>i\<close> on.\<close>

fun relabelSources :: "json \<Rightarrow> nat \<Rightarrow> json list \<Rightarrow> json \<Rightarrow> exn + json" where
  "relabelSources labels i [] widget = Inr widget"
| "relabelSources labels i (datasource # datasources) widget =
     andThen (js_get datasource ''dataKeys'') (\<lambda>dataKeys.
       case dataKeys of
         JArr keys \<Rightarrow>
           andThen (relabelKeys labels i 0 keys widget) (relabelSources labels (Suc i) datasources)
       | _ \<Rightarrow> Inl TypeError)"

text \<open>
  The body of \<open>Object.keys(widgets).forEach(widgetID => ...)\<close> for one widget.  The second
  test is \<open>widget.type === 'latest' || 'timeseries'\<close>, as written.
\<close>

definition labelWidget :: "json \<Rightarrow> json \<Rightarrow> exn + json" where
  "labelWidget labels widget =
     andThen (js_get widget ''type'') (\<lambda>ty.
       if ty = JStr ''rpc'' then
         andThen (js_path widget [''config'', ''settings'']) (\<lambda>settings.
         andThen (js_get settings ''valueKey'') (\<lambda>valueKey.
         andThen (js_set_path widget [''config'', ''showTitle''] (JBool False)) (\<lambda>w1.
         andThen (labelOf labels
                    (js_or (js_or valueKey (field settings ''valueAttribute''))
                       (field settings ''method''))) (\<lambda>label.
         andThen (js_path w1 [''config'', ''settings'', ''title'']) (\<lambda>old.
           js_set_path w1 [''config'', ''settings'', ''title''] (js_coalesce label old))))))
       else if truthy (js_or (JBool (ty = JStr ''latest'')) (JStr ''timeseries'')) then
         andThen (js_path widget [''config'', ''datasources'']) (\<lambda>datasources.
         andThen (js_get datasources ''length'') (\<lambda>n.
           if n = JNum 1 then
             andThen (js_path datasources [''0'', ''dataKeys'', ''0'', ''name'']) (\<lambda>name.
             andThen (labelOf labels name) (\<lambda>label.
             andThen (js_path widget [''config'', ''title'']) (\<lambda>old.
               js_set_path widget [''config'', ''title''] (js_or label old))))
           else
             (case datasources of
                JArr sources \<Rightarrow> relabelSources labels 0 sources widget
              | _ \<Rightarrow> Inl TypeError)))
       else Inr widget)"

text \<open>\<open>Object.keys(widgets).forEach(...)\<close>, each widget stored back under its id.\<close>

fun labelWidgets :: "json \<Rightarrow> string list \<Rightarrow> json \<Rightarrow> exn + json" where
  "labelWidgets labels [] widgets = Inr widgets"
| "labelWidgets labels (widgetID # widgetIDs) widgets =
     andThen (js_get widgets widgetID) (\<lambda>widget.
     andThen (labelWidget labels widget) (\<lambda>widget'.
     andThen (js_set widgets widgetID widget') (labelWidgets labels widgetIDs)))"

definition labelBody :: "json \<Rightarrow> json \<Rightarrow> exn + json" where
  "labelBody labels dashboardData =
     andThen (js_path dashboardData [''configuration'', ''widgets'']) (\<lambda>widgets.
     andThen (js_keys widgets) (\<lambda>widgetIDs.
     andThen (labelWidgets labels widgetIDs widgets) (\<lambda>widgets'.
       js_set_path dashboardData [''configuration'', ''widgets''] widgets')))"

definition label :: "platform \<Rightarrow> string \<Rightarrow> string \<Rightarrow> run" where
  "label P dashboardName deviceName =
     (let q1 = GetDashboards (listParams (JStr dashboardName)) in
      case andThen (P q1) (\<lambda>d. js_path d [''data'', ''0'']) of
        Inl e \<Rightarrow> ([Call q1], Inl e)
      | Inr dashboard \<Rightarrow>
          if \<not> truthy dashboard then (Call q1 # notFound ''Dashboard'' dashboardName, Inr ())
          else
            (let q2 = GetDevices (listParams (JStr deviceName)) in
             case andThen (P q2) (\<lambda>d. js_path d [''data'', ''0'']) of
               Inl e \<Rightarrow> ([Call q1, Call q2], Inl e)
             | Inr device \<Rightarrow>
                 if \<not> truthy device then
                   ([Call q1, Call q2] @ notFound ''Device'' deviceName, Inr ())
                 else
                   (case js_path device [''id'', ''id''] of
                      Inl e \<Rightarrow> ([Call q1, Call q2], Inl e)
                    | Inr deviceId \<Rightarrow>
                        (let q3 = GetDeviceAttributes deviceId [''LABELS''] in
                         case andThen (P q3) (\<lambda>attributes. js_path attributes [''0'', ''value'']) of
                           Inl e \<Rightarrow> ([Call q1, Call q2, Call q3], Inl e)
                         | Inr labels \<Rightarrow>
                             (case js_path dashboard [''id'', ''id''] of
                                Inl e \<Rightarrow> ([Call q1, Call q2, Call q3], Inl e)
                              | Inr dashboardId \<Rightarrow>
                                  (let q4 = GetDashboardById dashboardId in
                                   case andThen (P q4) (labelBody labels) of
                                     Inl e \<Rightarrow> ([Call q1, Call q2, Call q3, Call q4], Inl e)
                                   | Inr body \<Rightarrow>
                                       (let post = AxiosPost ''dashboard'' body in
                                        case P post of
                                          Inl e \<Rightarrow>
                                            ([Call q1, Call q2, Call q3, Call q4, Call post], Inl e)
                                        | Inr u \<Rightarrow>
                                            ([Call q1, Call q2, Call q3, Call q4, Call post,
                                              ConsoleLog (JStr (''Dashboard '' @ dashboardName
                                                                @ '' labeled successfully''))],
                                             Inr ()))))))))"


section \<open>Notions used in the statements and proofs\<close>

text \<open>A property key with a character that is not a digit: never an array index.\<close>

definition named :: "string \<Rightarrow> bool" where
  "named k = (\<exists>c \<in> set k. c \<notin> set ''0123456789'')"

text \<open>Objects and arrays: the values a property can be set on.\<close>

fun container :: "json \<Rightarrow> bool" where
  "container (JObj fs) = True"
| "container (JArr xs) = True"
| "container v = False"

text \<open>Two paths that part at some position, so that neither leads into the other.\<close>

fun diverge :: "string list \<Rightarrow> string list \<Rightarrow> bool" where
  "diverge (a # p) (b # q) = (a \<noteq> b \<or> diverge p q)"
| "diverge p q = False"


text \<open>An attribute entry as exported: \<open>lastUpdateTs\<close> gone, every other property kept.\<close>

abbreviation withoutLastUpdateTs :: "json \<Rightarrow> json \<Rightarrow> bool" where
  "withoutLastUpdateTs item item' \<equiv>
     (field item' ''lastUpdateTs'' = JUndefined
      \<and> (\<forall>k. k \<noteq> ''lastUpdateTs'' \<longrightarrow> field item' k = field item k))"

text \<open>
  The scopes whose writes come before the write of a scope: the three writes are awaited
  one after the other, server, shared, client.
\<close>

fun earlierScopes :: "scope \<Rightarrow> scope list" where
  "earlierScopes SERVER_SCOPE = []"
| "earlierScopes SHARED_SCOPE = [SERVER_SCOPE]"
| "earlierScopes CLIENT_SCOPE = [SERVER_SCOPE, SHARED_SCOPE]"

section \<open>Example installations\<close>

text \<open>Concrete platforms and files on which the theorems below are instantiated.\<close>

fun targetDup :: platform where
  "targetDup (SaveDevice b t) =
     Inl (AxiosError (JObj [(''data'', JObj [(''errorCode'', JNum 31), (''message'', JStr ''Device with such name already exists!'')])]))"
| "targetDup (GetDevices p) =
     Inr (JObj [(''data'', JArr [JObj [(''id'', JObj [(''id'', JStr ''dev-1'')]), (''name'', JStr ''pump'')]])])"
| "targetDup (GetDeviceCredentials i) =
     Inr (JObj [(''deviceId'', JObj [(''id'', JStr ''dev-1'')]), (''credentialsType'', JStr ''ACCESS_TOKEN''), (''credentialsId'', JStr ''old-token'')])"
| "targetDup (SaveDeviceCredentials c) = Inr c"
| "targetDup (SaveDeviceAttributes i sc obj) = Inr JNull"
| "targetDup r = Inl (AxiosError JUndefined)"

definition pumpFile :: device_file where
  "pumpFile = \<lparr> accessToken = JStr ''tok-1'',
     attributes = \<lparr> server = [(''a'', JNum 1)], shared = [], client = [(''fw'', JStr ''1.0'')] \<rparr> \<rparr>"

fun targetDenied :: platform where
  "targetDenied (SaveDevice b t) =
     Inl (AxiosError (JObj [(''data'', JObj [(''errorCode'', JNum 20), (''message'', JStr ''Permission denied'')])]))"
| "targetDenied (SaveDeviceAttributes i sc obj) =
     (if i = JNull then Inl (AxiosError (JObj [(''data'', JObj [(''errorCode'', JNum 31), (''message'', JStr ''Invalid UUID string: null'')])]))
      else Inr JNull)"
| "targetDenied r = Inl (AxiosError JUndefined)"

definition mkAlias :: "string \<Rightarrow> string \<Rightarrow> string \<Rightarrow> json" where
  "mkAlias name etype oldId = JObj [(''alias'', JStr name),
      (''filter'', JObj [(''type'', JStr ''singleEntity''),
         (''singleEntity'', JObj [(''entityType'', JStr etype), (''id'', JStr oldId)])])]"

definition lineDashboard :: json where
  "lineDashboard = JObj [(''id'', JObj [(''entityType'', JStr ''DASHBOARD''), (''id'', JStr ''old-dash'')]),
     (''createdTime'', JNum 1600000000000),
     (''tenantId'', JObj [(''entityType'', JStr ''TENANT''), (''id'', JStr ''old-tenant'')]),
     (''title'', JStr ''Line''),
     (''configuration'', JObj [
        (''entityAliases'', JObj [(''a1'', mkAlias ''pump'' ''DEVICE'' ''old-d1''),
                                  (''a2'', mkAlias ''ghost'' ''DEVICE'' ''old-d2'')])])]"

fun targetPlant :: platform where
  "targetPlant (GetDevices p) =
     (if field p ''textSearch'' = JStr ''pump''
      then Inr (JObj [(''data'', JArr [JObj [(''id'', JObj [(''id'', JStr ''dev-1'')]), (''name'', JStr ''pump'')]])])
      else Inr (JObj [(''data'', JArr [])]))"
| "targetPlant (GetCustomers p) = Inr (JObj [(''data'', JArr [])])"
| "targetPlant (SaveDashboard d) = Inr d"
| "targetPlant r = Inl (AxiosError JUndefined)"

definition mkCustomer :: "string \<Rightarrow> string \<Rightarrow> json" where
  "mkCustomer title oldId = JObj [(''customerId'', JObj [(''entityType'', JStr ''CUSTOMER''), (''id'', JStr oldId)]),
      (''title'', JStr title)]"

definition sharedDashboard :: "json list \<Rightarrow> json" where
  "sharedDashboard assigned = JObj [(''title'', JStr ''Shared''),
     (''assignedCustomers'', JArr assigned),
     (''configuration'', JObj [(''entityAliases'', JObj [])])]"

fun targetCustomers :: platform where
  "targetCustomers (GetCustomers p) =
     (if field p ''textSearch'' = JStr ''Initech''
      then Inr (JObj [(''data'', JArr [JObj [(''id'', JObj [(''id'', JStr ''cust-9'')]), (''title'', JStr ''Initech'')]])])
      else Inr (JObj [(''data'', JArr [])]))"
| "targetCustomers (SaveDashboard d) = Inr d"
| "targetCustomers r = Inl (AxiosError JUndefined)"

definition alarmWidget :: json where
  "alarmWidget = JObj [(''type'', JStr ''alarm''),
     (''config'', JObj [(''title'', JStr ''Alarms''),
        (''datasources'', JArr [JObj [(''type'', JStr ''entity''),
            (''dataKeys'', JArr [JObj [(''name'', JStr ''temperature''), (''label'', JStr ''temperature'')]])]])])]"

definition deviceLabels :: json where
  "deviceLabels = JObj [(''temperature'', JStr ''Boiler temperature'')]"

definition sourceDashboards :: json where
  "sourceDashboards = JObj [(''data'', JArr [JObj [(''id'', JObj [(''id'', JStr ''dash-1'')]), (''name'', JStr ''Base'')]])]"

definition baseDashboard :: json where
  "baseDashboard = JObj [(''id'', JObj [(''entityType'', JStr ''DASHBOARD''), (''id'', JStr ''dash-1'')]),
     (''title'', JStr ''Base''), (''name'', JStr ''Base''),
     (''configuration'', JObj [
        (''entityAliases'', JObj [(''a1'', mkAlias ''Sensor-1'' ''DEVICE'' ''dev-1'')]),
        (''states'', JObj [(''default'', JObj [(''name'', JStr ''Base''), (''root'', JBool True)])]),
        (''widgets'', JObj [(''w1'', alarmWidget)])])]"

definition widgetListing :: "json list" where
  "widgetListing =
     [JObj [(''alias'', JStr ''cards''), (''title'', JStr ''Cards''),
            (''tenantId'', JObj [(''id'', JStr ''13814000-1dd2-11b2-8080-808080808080'')])],
      JObj [(''alias'', JStr ''plant''), (''title'', JStr ''Plant widgets''),
            (''tenantId'', JObj [(''id'', JStr ''tenant-1'')])]]"

definition plantDir :: string where
  "plantDir = ''backups/tenants/Plant''"

fun targetClone :: platform where
  "targetClone (GetDashboards p) =
     (if field p ''textSearch'' = JStr ''base'' then Inr sourceDashboards else Inr (JObj [(''data'', JArr [])]))"
| "targetClone (GetDevices p) =
     (if field p ''textSearch'' = JStr ''sensor-7''
      then Inr (JObj [(''data'', JArr [JObj [(''id'', JObj [(''id'', JStr ''dev-7'')]), (''name'', JStr ''Sensor-7'')]])])
      else Inr (JObj [(''data'', JArr [])]))"
| "targetClone (GetDashboardById i) = (if i = JStr ''dash-1'' then Inr baseDashboard else Inl (AxiosError JUndefined))"
| "targetClone (GetDeviceAttributes i ks) = Inr (JArr [JObj [(''key'', JStr ''LABELS''), (''value'', deviceLabels)]])"
| "targetClone (AxiosPost u b) = Inr b"
| "targetClone GetWidgetBundles = Inr (JArr widgetListing)"
| "targetClone (GetWidgetBundlesData a s) = Inr (JArr [JObj [(''alias'', a), (''name'', JStr ''gauge'')]])"
| "targetClone (GetDeviceAttributesByScope i sc) =
     (if sc = SERVER_SCOPE then Inr (JArr [JObj [(''lastUpdateTs'', JNum 1600000000001), (''key'', JStr ''a''), (''value'', JNum 1)]])
      else Inr (JArr []))"
| "targetClone (GetDeviceCredentials i) = Inr (JObj [(''credentialsType'', JStr ''ACCESS_TOKEN''), (''credentialsId'', JStr ''tok-7'')])"
| "targetClone r = Inl (AxiosError JUndefined)"

definition baseSummary :: json where
  "baseSummary = JObj [(''id'', JObj [(''id'', JStr ''dash-1'')]), (''name'', JStr ''Base'')]"

definition sensorSummary :: json where
  "sensorSummary = JObj [(''id'', JObj [(''id'', JStr ''dev-7'')]), (''name'', JStr ''Sensor-7'')]"


text \<open>The same installation as the source of an export, with a file system that accepts.\<close>

fun sourcePlant :: platform where
  "sourcePlant (WriteFile p c) = Inr JUndefined"
| "sourcePlant (MakeDir p r) = Inr JUndefined"
| "sourcePlant r = targetClone r"


text \<open>An installation that creates the device and refuses the server attributes.\<close>

fun targetRefusing :: platform where
  "targetRefusing (SaveDevice b t) = Inr (JObj [(''id'', JObj [(''id'', JStr ''dev-9'')]), (''name'', field b ''name'')])"
| "targetRefusing (SaveDeviceAttributes i sc obj) =
     (if sc = SERVER_SCOPE
      then Inl (AxiosError (JObj [(''data'', JObj [(''errorCode'', JNum 2), (''message'', JStr ''Invalid attribute'')])]))
      else Inr JNull)"
| "targetRefusing r = Inl (AxiosError JUndefined)"

definition plainDashboard :: json where
  "plainDashboard = JObj [(''id'', JObj [(''entityType'', JStr ''DASHBOARD''), (''id'', JStr ''old-dash'')]),
     (''createdTime'', JNum 1600000000000),
     (''tenantId'', JObj [(''entityType'', JStr ''TENANT''), (''id'', JStr ''old-tenant'')]),
     (''title'', JStr ''Plain''),
     (''configuration'', JObj [(''entityAliases'', JObj [])])]"

section \<open>Restore of a device: properties\<close>

lemma repairCredentials_calls:
  "x \<in> set (repairCredentials P d t) \<Longrightarrow>
     (\<exists>m. x = ConsoleLog m) \<or> x = Call (GetDeviceCredentials d) \<or> (\<exists>c. x = Call (SaveDeviceCredentials c))"
  by (auto simp: repairCredentials_def Let_def split: sum.splits)

lemma establishIdentity_effects:
  "x \<in> set (fst (establishIdentity P n t)) \<Longrightarrow>
     (\<exists>m. x = ConsoleLog m) \<or> x = Call (SaveDevice (newDevice n) t)
     \<or> x = Call (GetDevices (listParams (JStr n)))
     \<or> (\<exists>d. x = Call (GetDeviceCredentials d)) \<or> (\<exists>c. x = Call (SaveDeviceCredentials c))"
  by (auto simp: establishIdentity_def Let_def split: sum.splits if_splits dest!: repairCredentials_calls)

lemma establishIdentity_first:
  "\<exists>rest. fst (establishIdentity P n t) = Call (SaveDevice (newDevice n) t) # rest"
  by (auto simp: establishIdentity_def Let_def split: sum.splits if_splits)

lemma saveScope_effects:
  "x \<in> set (fst (saveScope P d sc arr)) \<Longrightarrow> arr \<noteq> [] \<and> x = Call (SaveDeviceAttributes d sc (getAttributesObject arr))"
  by (auto simp: saveScope_def Let_def split: if_splits)

lemma seq_effects: "x \<in> set (fst (seq a b)) \<Longrightarrow> x \<in> set (fst a) \<or> x \<in> set (fst b)"
  by (auto simp: seq_def split: sum.splits)

lemma restoreAttributes_effects:
  "x \<in> set (fst (restoreAttributes P d a)) \<Longrightarrow>
     \<exists>sc. scopeArray sc a \<noteq> [] \<and> x = Call (SaveDeviceAttributes d sc (getAttributesObject (scopeArray sc a)))"
  unfolding restoreAttributes_def
  by (auto dest!: seq_effects saveScope_effects)

lemma restoreDevice_effects:
  "x \<in> set (fst (restoreDevice P fileName device)) \<Longrightarrow>
     x \<in> set (fst (establishIdentity P (baseName fileName) (accessToken device)))
     \<or> (\<exists>d. x \<in> set (fst (restoreAttributes P d (attributes device))))"
  by (auto simp: restoreDevice_def seq_def split: prod.splits sum.splits)

text \<open>
  Claim C10.  Whatever the device file holds, the first thing the restore of a device does is
  the creation call, whose body is \<open>{name, type}\<close> with the name taken from the file's
  name and the type the constant \<open>AT_CORE\<close>; every creation call of the run has that
  type.  The device file has no type to read.
\<close>

theorem restore_device_type_fixed:
  "(\<exists>rest. fst (restoreDevice P fileName device) =
      Call (SaveDevice (JObj [(''name'', JStr (baseName fileName)), (''type'', JStr ''AT_CORE'')])
             (accessToken device)) # rest)
   \<and> (\<forall>body tok. Call (SaveDevice body tok) \<in> set (fst (restoreDevice P fileName device)) \<longrightarrow>
         field body ''type'' = JStr ''AT_CORE'')"
proof
  obtain rest where r: "fst (establishIdentity P (baseName fileName) (accessToken device)) =
      Call (SaveDevice (newDevice (baseName fileName)) (accessToken device)) # rest"
    using establishIdentity_first by blast
  show "\<exists>rest. fst (restoreDevice P fileName device) =
      Call (SaveDevice (JObj [(''name'', JStr (baseName fileName)), (''type'', JStr ''AT_CORE'')])
             (accessToken device)) # rest"
    using r by (auto simp: restoreDevice_def seq_def newDevice_def split: prod.splits sum.splits)
next
  show "\<forall>body tok. Call (SaveDevice body tok) \<in> set (fst (restoreDevice P fileName device)) \<longrightarrow>
         field body ''type'' = JStr ''AT_CORE''"
    by (auto dest!: restoreDevice_effects establishIdentity_effects restoreAttributes_effects
             simp: newDevice_def)
qed

text \<open>
  C10 on the file \<open>pump.json\<close>.
\<close>

theorem restore_device_type_fixed_witness:
  "hd (fst (restoreDevice targetDup ''pump.json'' pumpFile)) =
     Call (SaveDevice (JObj [(''name'', JStr ''pump''), (''type'', JStr ''AT_CORE'')]) (JStr ''tok-1''))"
  using restore_device_type_fixed [of targetDup "''pump.json''" pumpFile]
  by (auto simp: baseName_def pumpFile_def)

lemma scope_all: "(\<forall>s. Q s) \<longleftrightarrow> Q SERVER_SCOPE \<and> Q SHARED_SCOPE \<and> Q CLIENT_SCOPE"
  by (metis scope.exhaust)

lemma restoreAttributes_writes:
  "Call (SaveDeviceAttributes i sc obj) \<in> set (fst (restoreAttributes P d a)) \<longleftrightarrow>
     i = d \<and> obj = getAttributesObject (scopeArray sc a) \<and> scopeArray sc a \<noteq> []
     \<and> (\<forall>s\<in>set (earlierScopes sc). scopeArray s a \<noteq> [] \<longrightarrow>
           \<not> isl (P (SaveDeviceAttributes d s (getAttributesObject (scopeArray s a)))))"
  by (cases sc) (auto simp: restoreAttributes_def saveScope_def seq_def Let_def split: sum.splits)

lemma restoreAttributes_result:
  "snd (restoreAttributes P d a) = Inr () \<longleftrightarrow>
     (\<forall>s. scopeArray s a \<noteq> [] \<longrightarrow>
           \<not> isl (P (SaveDeviceAttributes d s (getAttributesObject (scopeArray s a)))))"
  unfolding scope_all
  by (auto simp: restoreAttributes_def saveScope_def seq_def Let_def split: sum.splits)


text \<open>
  Claim C4, as amended.  A scope whose stored array is empty is never written, whatever
  the platform answers.  When the identity step ended with a device id, the scopes are
  written to that id in the order server, shared, client, each write awaited before the
  next: a scope is written exactly when its stored array is non-empty and the platform
  accepted the write of every non-empty scope before it, and it carries the object built
  from that array.  The callback runs to its end exactly when every write of a non-empty
  scope is accepted.
\<close>

theorem restore_attributes_until_rejected:
  "(scopeArray sc (attributes device) = [] \<longrightarrow>
      (\<forall>i obj. Call (SaveDeviceAttributes i sc obj) \<notin> set (fst (restoreDevice P fileName device))))
   \<and> (establishIdentity P (baseName fileName) (accessToken device) = (t, Inr deviceId) \<longrightarrow>
        (\<forall>i obj. Call (SaveDeviceAttributes i sc obj) \<in> set (fst (restoreDevice P fileName device)) \<longleftrightarrow>
            i = deviceId \<and> obj = getAttributesObject (scopeArray sc (attributes device))
            \<and> scopeArray sc (attributes device) \<noteq> []
            \<and> (\<forall>s\<in>set (earlierScopes sc). scopeArray s (attributes device) \<noteq> [] \<longrightarrow>
                  \<not> isl (P (SaveDeviceAttributes deviceId s
                               (getAttributesObject (scopeArray s (attributes device)))))))
        \<and> (snd (restoreDevice P fileName device) = Inr () \<longleftrightarrow>
             (\<forall>s. scopeArray s (attributes device) \<noteq> [] \<longrightarrow>
                  \<not> isl (P (SaveDeviceAttributes deviceId s
                               (getAttributesObject (scopeArray s (attributes device))))))))"
proof (intro conjI impI allI)
  fix i obj
  assume "scopeArray sc (attributes device) = []"
  then show "Call (SaveDeviceAttributes i sc obj) \<notin> set (fst (restoreDevice P fileName device))"
    by (auto dest!: restoreDevice_effects establishIdentity_effects restoreAttributes_effects)
next
  fix i obj
  assume a: "establishIdentity P (baseName fileName) (accessToken device) = (t, Inr deviceId)"
  then have run: "restoreDevice P fileName device =
      (t @ fst (restoreAttributes P deviceId (attributes device)),
       snd (restoreAttributes P deviceId (attributes device)))"
    by (simp add: restoreDevice_def seq_def)
  have t: "Call (SaveDeviceAttributes i sc obj) \<notin> set t"
    using establishIdentity_effects [of _ P "baseName fileName" "accessToken device"] a by auto
  show "Call (SaveDeviceAttributes i sc obj) \<in> set (fst (restoreDevice P fileName device)) \<longleftrightarrow>
            i = deviceId \<and> obj = getAttributesObject (scopeArray sc (attributes device))
            \<and> scopeArray sc (attributes device) \<noteq> []
            \<and> (\<forall>s\<in>set (earlierScopes sc). scopeArray s (attributes device) \<noteq> [] \<longrightarrow>
                  \<not> isl (P (SaveDeviceAttributes deviceId s
                               (getAttributesObject (scopeArray s (attributes device))))))"
    using t restoreAttributes_writes [of i sc obj P deviceId "attributes device"] by (simp add: run)
next
  assume a: "establishIdentity P (baseName fileName) (accessToken device) = (t, Inr deviceId)"
  then have run: "restoreDevice P fileName device =
      (t @ fst (restoreAttributes P deviceId (attributes device)),
       snd (restoreAttributes P deviceId (attributes device)))"
    by (simp add: restoreDevice_def seq_def)
  show "snd (restoreDevice P fileName device) = Inr () \<longleftrightarrow>
             (\<forall>s. scopeArray s (attributes device) \<noteq> [] \<longrightarrow>
                  \<not> isl (P (SaveDeviceAttributes deviceId s
                               (getAttributesObject (scopeArray s (attributes device))))))"
    using restoreAttributes_result [of P deviceId "attributes device"] by (simp add: run)
qed


text \<open>
  Claim C4, as stated, fails: on \<open>pump.json\<close> the platform creates the device and
  refuses the server attributes; the stored client scope is not empty and is not
  written.
\<close>

theorem rejected_write_drops_later_scopes:
  "restoreDevice targetRefusing ''pump.json'' pumpFile =
     ([Call (SaveDevice (JObj [(''name'', JStr ''pump''), (''type'', JStr ''AT_CORE'')]) (JStr ''tok-1'')),
       Call (SaveDeviceAttributes (JStr ''dev-9'') SERVER_SCOPE (JObj [(''a'', JNum 1)]))],
      Inl (AxiosError (JObj [(''data'', JObj [(''errorCode'', JNum 2), (''message'', JStr ''Invalid attribute'')])])))
   \<and> scopeArray CLIENT_SCOPE (attributes pumpFile) = [(''fw'', JStr ''1.0'')]"
  by (simp add: restoreDevice_def establishIdentity_def baseName_def pumpFile_def andThen_def
        newDevice_def js_get_def nullish_def
        restoreAttributes_def saveScope_def seq_def getAttributesObject_def)


text \<open>
  The amended C4 on \<open>pump.json\<close>: against the installation that refuses the server
  attributes the server scope is written, the shared scope (empty) and the client scope
  (after the refusal) are not; against the installation that accepts them the client
  scope is written.
\<close>

theorem restore_attributes_until_rejected_witness:
  "Call (SaveDeviceAttributes (JStr ''dev-9'') SERVER_SCOPE (JObj [(''a'', JNum 1)]))
     \<in> set (fst (restoreDevice targetRefusing ''pump.json'' pumpFile))
   \<and> (\<forall>i obj. Call (SaveDeviceAttributes i SHARED_SCOPE obj)
         \<notin> set (fst (restoreDevice targetRefusing ''pump.json'' pumpFile)))
   \<and> (\<forall>i obj. Call (SaveDeviceAttributes i CLIENT_SCOPE obj)
         \<notin> set (fst (restoreDevice targetRefusing ''pump.json'' pumpFile)))
   \<and> snd (restoreDevice targetRefusing ''pump.json'' pumpFile) \<noteq> Inr ()
   \<and> Call (SaveDeviceAttributes (JStr ''dev-1'') CLIENT_SCOPE (JObj [(''fw'', JStr ''1.0'')]))
     \<in> set (fst (restoreDevice targetDup ''pump.json'' pumpFile))"
proof -
  have e: "establishIdentity targetRefusing (baseName ''pump.json'') (accessToken pumpFile) =
     (fst (establishIdentity targetRefusing (baseName ''pump.json'') (accessToken pumpFile)), Inr (JStr ''dev-9''))"
    by (simp add: establishIdentity_def baseName_def pumpFile_def andThen_def newDevice_def
          js_get_def nullish_def)
  have d: "establishIdentity targetDup (baseName ''pump.json'') (accessToken pumpFile) =
     (fst (establishIdentity targetDup (baseName ''pump.json'') (accessToken pumpFile)), Inr (JStr ''dev-1''))"
    by (simp add: establishIdentity_def baseName_def pumpFile_def andThen_def errorCode_def
          opt_field_def nullish_def js_get_def string_of_nat.simps digit_def)
  have a: "scopeArray SERVER_SCOPE (attributes pumpFile) = [(''a'', JNum 1)]"
          "scopeArray SHARED_SCOPE (attributes pumpFile) = []"
          "scopeArray CLIENT_SCOPE (attributes pumpFile) = [(''fw'', JStr ''1.0'')]"
          "getAttributesObject [(''a'', JNum 1)] = JObj [(''a'', JNum 1)]"
          "getAttributesObject [(''fw'', JStr ''1.0'')] = JObj [(''fw'', JStr ''1.0'')]"
          "server (attributes pumpFile) = [(''a'', JNum 1)]"
          "shared (attributes pumpFile) = []"
          "client (attributes pumpFile) = [(''fw'', JStr ''1.0'')]"
    by (simp_all add: pumpFile_def getAttributesObject_def)
  note sv = restore_attributes_until_rejected [where sc = SERVER_SCOPE and device = pumpFile
      and P = targetRefusing and fileName = "''pump.json''" and deviceId = "JStr ''dev-9''",
      THEN conjunct2, THEN mp, OF e]
  note sh = restore_attributes_until_rejected [where sc = SHARED_SCOPE and device = pumpFile
      and P = targetRefusing and fileName = "''pump.json''", THEN conjunct1, THEN mp, OF a(2)]
  note cl = restore_attributes_until_rejected [where sc = CLIENT_SCOPE and device = pumpFile
      and P = targetRefusing and fileName = "''pump.json''" and deviceId = "JStr ''dev-9''",
      THEN conjunct2, THEN mp, OF e]
  note dup = restore_attributes_until_rejected [where sc = CLIENT_SCOPE and device = pumpFile
      and P = targetDup and fileName = "''pump.json''" and deviceId = "JStr ''dev-1''",
      THEN conjunct2, THEN mp, OF d]
  have c1: "Call (SaveDeviceAttributes (JStr ''dev-9'') SERVER_SCOPE (JObj [(''a'', JNum 1)]))
     \<in> set (fst (restoreDevice targetRefusing ''pump.json'' pumpFile))"
    using sv [THEN conjunct1] by (simp add: a)
  have c3: "\<forall>i obj. Call (SaveDeviceAttributes i CLIENT_SCOPE obj)
         \<notin> set (fst (restoreDevice targetRefusing ''pump.json'' pumpFile))"
    using cl [THEN conjunct1] by (simp add: a)
  have c4: "snd (restoreDevice targetRefusing ''pump.json'' pumpFile) \<noteq> Inr ()"
    using sv [THEN conjunct2] by (auto simp: a)
  have c5: "Call (SaveDeviceAttributes (JStr ''dev-1'') CLIENT_SCOPE (JObj [(''fw'', JStr ''1.0'')]))
     \<in> set (fst (restoreDevice targetDup ''pump.json'' pumpFile))"
    using dup [THEN conjunct1] by (simp add: a)
  show ?thesis by (intro conjI c1 sh c3 c4 c5)
qed



text \<open>
  Claim C5.  Creation of the device is refused with code 20.  The message is logged, the
  device id stays \<open>null\<close>, and the attribute restore is not skipped: the server scope is
  posted to the device id \<open>null\<close>.  The platform's refusal of that call ends the callback.
\<close>

theorem attributes_written_after_failed_creation:
  "restoreDevice targetDenied ''pump.json'' pumpFile =
     ([Call (SaveDevice (JObj [(''name'', JStr ''pump''), (''type'', JStr ''AT_CORE'')]) (JStr ''tok-1'')),
       ConsoleLog (JStr ''Permission denied''),
       Call (SaveDeviceAttributes JNull SERVER_SCOPE (JObj [(''a'', JNum 1)]))],
      Inl (AxiosError (JObj [(''data'', JObj [(''errorCode'', JNum 31), (''message'', JStr ''Invalid UUID string: null'')])])))"
  by (simp add: restoreDevice_def establishIdentity_def baseName_def pumpFile_def andThen_def
        newDevice_def errorCode_def message_def opt_field_def nullish_def
        restoreAttributes_def saveScope_def seq_def getAttributesObject_def)


section \<open>Reading and writing along paths\<close>

subsection \<open>Keys and indices\<close>

lemma digit_in: "n < 10 \<Longrightarrow> digit n \<in> set ''0123456789''"
  by (auto simp: digit_def numeral_eq_Suc less_Suc_eq)

lemma string_of_nat_digits: "set (string_of_nat n) \<subseteq> set ''0123456789''"
proof (induction n rule: string_of_nat.induct)
  case (1 n)
  show ?case
  proof (cases "n < 10")
    case True
    then show ?thesis using digit_in [of n] by (subst string_of_nat.simps) simp
  next
    case False
    then have "set (string_of_nat (n div 10)) \<subseteq> set ''0123456789''" using 1 by simp
    moreover have "digit (n mod 10) \<in> set ''0123456789''" by (rule digit_in) simp
    ultimately show ?thesis using False by (subst string_of_nat.simps) auto
  qed
qed

lemma named_not_index: "named k \<Longrightarrow> string_of_nat i \<noteq> k"
  using string_of_nat_digits [of i] by (auto simp: named_def)

lemma index_get_named: "named k \<Longrightarrow> index_get xs i k = JUndefined"
  by (induction xs i k rule: index_get.induct) (auto dest: named_not_index)

lemma index_get_set_other: "k \<noteq> k' \<Longrightarrow> index_get (index_set xs i k v) i k' = index_get xs i k'"
  by (induction xs i k v rule: index_set.induct) auto

lemma length_index_set: "length (index_set xs i k v) = length xs"
  by (induction xs i k v rule: index_set.induct) auto

lemma index_get_set_same:
  "index_get xs i k \<noteq> JUndefined \<Longrightarrow> index_get (index_set xs i k v) i k = v"
  by (induction xs i k rule: index_get.induct) auto

lemma js_set_container: "js_set v k x = Inr v' \<Longrightarrow> container v \<and> container v'"
  by (cases v) auto

lemma container_not_nullish: "container v \<Longrightarrow> \<not> nullish v"
  by (cases v) (auto simp: nullish_def)

lemma field_js_set_other:
  "js_set v k x = Inr v' \<Longrightarrow> k' \<noteq> k \<Longrightarrow> field v' k' = field v k'"
  by (cases v) (auto simp: update_conv' index_get_set_other length_index_set)

lemma container_defined: "container c \<Longrightarrow> c \<noteq> JUndefined"
  by auto

lemma field_js_set_same:
  "js_set v k x = Inr v' \<Longrightarrow> container (field v k) \<Longrightarrow> field v' k = x"
  by (cases v) (auto simp: update_conv' index_get_set_same dest!: container_defined split: if_splits)

lemma field_container_parent: "container (field v k) \<Longrightarrow> container v"
proof (cases v)
  case (JStr s)
  have "\<And>i. \<not> container (index_get (map (\<lambda>c. JStr [c]) s) i k)"
    by (induction s) auto
  then show "container (field v k) \<Longrightarrow> container v" using JStr by (auto split: if_splits)
qed auto

lemma js_get_Inr: "js_get v k = Inr c \<longleftrightarrow> \<not> nullish v \<and> c = field v k"
  by (auto simp: js_get_def)

lemma andThen_Inr: "andThen m f = Inr y \<longleftrightarrow> (\<exists>x. m = Inr x \<and> f x = Inr y)"
  by (cases m) (auto simp: andThen_def)

lemma andThen_simps [simp]: "andThen (Inr x) f = f x" "andThen (Inl e) f = Inl e"
  by (simp_all add: andThen_def)

lemma js_path_append: "js_path v (p @ q) = andThen (js_path v p) (\<lambda>c. js_path c q)"
  by (induction p arbitrary: v) (auto simp: andThen_def split: sum.splits)

subsection \<open>Writing along a path\<close>

lemma js_set_path_container:
  "js_set_path v p x = Inr v' \<Longrightarrow> p \<noteq> [] \<Longrightarrow> container v \<and> container v'"
  by (induction v p x rule: js_set_path.induct)
     (auto simp: andThen_Inr dest: js_set_container)

lemma js_set_path_frame:
  "js_set_path v p x = Inr v' \<Longrightarrow> diverge p q \<Longrightarrow> js_path v' q = js_path v q"
proof (induction v p x arbitrary: v' q rule: js_set_path.induct)
  case (1 v x)
  then show ?case by simp
next
  case (2 v k x)
  then obtain b q' where q: "q = b # q'" "k \<noteq> b" by (cases q) auto
  from 2 have "js_set v k x = Inr v'" by simp
  then have "field v' b = field v b" "\<not> nullish v" "\<not> nullish v'"
    using q by (auto dest: js_set_container container_not_nullish field_js_set_other)
  then show ?case by (simp add: q js_get_def)
next
  case (3 v k k2 ks x)
  from 3(2) obtain c c' where c: "js_get v k = Inr c" "js_set_path c (k2 # ks) x = Inr c'"
      "js_set v k c' = Inr v'"
    by (auto simp: andThen_Inr)
  from 3(3) obtain b q' where q: "q = b # q'" "k \<noteq> b \<or> diverge (k2 # ks) q'" by (cases q) auto
  have nn: "\<not> nullish v" "\<not> nullish v'"
    using c(3) by (auto dest: js_set_container container_not_nullish)
  show ?case
  proof (cases "k = b")
    case False
    then have "field v' b = field v b" using c(3) by (auto dest: field_js_set_other)
    then show ?thesis using nn by (simp add: q js_get_def)
  next
    case True
    then have d: "diverge (k2 # ks) q'" using q by simp
    have cf: "c = field v k" using c(1) by (simp add: js_get_Inr)
    have "container c" using c(2) js_set_path_container by blast
    then have "field v' k = c'" using c(3) cf by (auto dest: field_js_set_same)
    moreover have "js_path c' q' = js_path c q'" using 3(1) c(2) d by blast
    ultimately show ?thesis using nn cf True by (simp add: q js_get_def)
  qed
qed

lemma js_set_path_same:
  "js_set_path v p x = Inr v' \<Longrightarrow> p \<noteq> [] \<Longrightarrow> js_path v (butlast p) = Inr (JObj fs) \<Longrightarrow>
     js_path v' p = Inr x"
proof (induction v p x arbitrary: v' rule: js_set_path.induct)
  case (1 v x)
  then show ?case by simp
next
  case (2 v k x)
  then show ?case by (auto simp: js_get_def nullish_def update_conv')
next
  case (3 v k k2 ks x)
  from 3(2) obtain c c' where c: "js_get v k = Inr c" "js_set_path c (k2 # ks) x = Inr c'"
      "js_set v k c' = Inr v'"
    by (auto simp: andThen_Inr)
  have cf: "c = field v k" using c(1) by (simp add: js_get_Inr)
  have "js_path c (butlast (k2 # ks)) = Inr (JObj fs)" using 3(4) c(1) by simp
  then have "js_path c' (k2 # ks) = Inr x" using 3(1) c(2) by blast
  moreover have "container c" using c(2) js_set_path_container by blast
  then have "field v' k = c'" using c(3) cf by (auto dest: field_js_set_same)
  moreover have "\<not> nullish v'" using c(3) by (auto dest: js_set_container container_not_nullish)
  ultimately show ?case by (simp add: js_get_def)
qed

lemma js_path_container:
  "js_path v p = Inr c \<Longrightarrow> container c \<Longrightarrow> container v"
proof (induction p arbitrary: v)
  case Nil
  then show ?case by simp
next
  case (Cons k p)
  then obtain c1 where "js_get v k = Inr c1" "js_path c1 p = Inr c" by (auto simp: andThen_Inr)
  then show ?case using Cons by (auto simp: js_get_Inr dest: field_container_parent)
qed

lemma js_set_path_succeeds:
  "js_path v p = Inr (JObj fs) \<Longrightarrow> \<exists>v'. js_set_path v (p @ [k]) x = Inr v'"
proof (induction p arbitrary: v)
  case Nil
  then show ?case by simp
next
  case (Cons k1 p)
  then obtain c where c: "js_get v k1 = Inr c" "js_path c p = Inr (JObj fs)"
    by (auto simp: andThen_Inr)
  then obtain c' where c': "js_set_path c (p @ [k]) x = Inr c'" using Cons.IH by blast
  have "container c" using c(2) js_path_container by fastforce
  then have "container v" using c(1) by (auto simp: js_get_Inr dest: field_container_parent)
  then obtain v' where "js_set v k1 c' = Inr v'" by (cases v) auto
  moreover obtain k2 ks where "p @ [k] = k2 # ks" by (cases "p @ [k]") auto
  ultimately show ?case using c c' by (auto simp: andThen_def)
qed

lemma object_of_named_field:
  "js_path v (p @ [k]) = Inr y \<Longrightarrow> y \<noteq> JUndefined \<Longrightarrow> named k \<Longrightarrow> k \<noteq> ''length'' \<Longrightarrow>
     \<exists>fs. js_path v p = Inr (JObj fs)"
proof -
  assume a: "js_path v (p @ [k]) = Inr y" "y \<noteq> JUndefined" "named k" "k \<noteq> ''length''"
  then obtain b where b: "js_path v p = Inr b" "js_get b k = Inr y"
    by (auto simp: js_path_append andThen_Inr)
  then have "field b k = y" by (simp add: js_get_Inr)
  then have "\<exists>fs. b = JObj fs" using a(2-4) by (cases b) (auto simp: index_get_named)
  then show ?thesis using b by auto
qed

lemma js_set_path_succeeds_container:
  "js_path v p = Inr c \<Longrightarrow> container c \<Longrightarrow> \<exists>v'. js_set_path v (p @ [k]) x = Inr v'"
proof (induction p arbitrary: v)
  case Nil
  then show ?case by (cases v) auto
next
  case (Cons k1 p)
  then obtain c1 where c: "js_get v k1 = Inr c1" "js_path c1 p = Inr c"
    by (auto simp: andThen_Inr)
  then obtain c' where c': "js_set_path c1 (p @ [k]) x = Inr c'" using Cons by blast
  have "container c1" using c(2) Cons.prems(2) js_path_container by blast
  then have "container v" using c(1) by (auto simp: js_get_Inr dest: field_container_parent)
  then obtain v' where "js_set v k1 c' = Inr v'" by (cases v) auto
  moreover obtain k2 ks where "p @ [k] = k2 # ks" by (cases "p @ [k]") auto
  ultimately show ?case using c c' by (auto simp: andThen_def)
qed

lemma js_set_path_prefix:
  "js_set_path v (q @ r) x = Inr v' \<Longrightarrow> r \<noteq> [] \<Longrightarrow> \<exists>c. js_path v' q = Inr c \<and> container c"
proof (induction q arbitrary: v v')
  case Nil
  then show ?case using js_set_path_container by fastforce
next
  case (Cons k q)
  obtain k2 ks where qr: "q @ r = k2 # ks" using Cons.prems(2) by (cases "q @ r") auto
  with Cons.prems(1) obtain c c' where c: "js_get v k = Inr c" "js_set_path c (q @ r) x = Inr c'"
      "js_set v k c' = Inr v'"
    by (auto simp: andThen_Inr)
  have "container c" using c(2) qr js_set_path_container by fastforce
  then have "field v' k = c'" using c(1,3) by (auto simp: js_get_Inr dest: field_js_set_same)
  moreover have "\<not> nullish v'" using c(3) by (auto dest: js_set_container container_not_nullish)
  moreover obtain c2 where "js_path c' q = Inr c2" "container c2" using Cons.IH [OF c(2) Cons.prems(2)] by blast
  ultimately show ?case by (simp add: js_get_def)
qed


section \<open>Restore of a dashboard: properties\<close>

lemma named_entityType: "named ''entityType''"
  by (simp add: named_def)

lemma diverge_id_type: "diverge (aliasIdPath h) (aliasTypePath k)"
  by (simp add: aliasIdPath_def aliasTypePath_def aliasPath_def)

lemma diverge_id_id: "h \<noteq> k \<Longrightarrow> diverge (aliasIdPath h) (aliasIdPath k)"
  by (simp add: aliasIdPath_def aliasPath_def)

lemma aliasDeviceName_type:
  "aliasDeviceName d k = Inr (Some n) \<Longrightarrow> js_path d (aliasTypePath k) = Inr (JStr ''DEVICE'')"
  by (auto simp: aliasDeviceName_def andThen_Inr split: if_splits)

lemma alias_base_object:
  assumes "js_path d (aliasTypePath k) = Inr (JStr ''DEVICE'')"
  shows "\<exists>fs. js_path d (butlast (aliasIdPath k)) = Inr (JObj fs)"
proof -
  have "js_path d ((aliasPath k @ [''filter'', ''singleEntity'']) @ [''entityType'']) = Inr (JStr ''DEVICE'')"
    using assms by (simp add: aliasTypePath_def)
  then have "\<exists>fs. js_path d (aliasPath k @ [''filter'', ''singleEntity'']) = Inr (JObj fs)"
    by (rule object_of_named_field) (simp_all add: named_entityType)
  then show ?thesis by (simp add: aliasIdPath_def butlast_append)
qed

lemma aliasResolved_cases:
  assumes "aliasResolved P h m d = Inr d1"
  shows "d1 = d \<or> (\<exists>x. js_set_path d (aliasIdPath h) x = Inr d1)"
  using assms
  by (auto simp: aliasResolved_def andThen_Inr split: if_splits)

lemma aliasResolved_frame:
  assumes "aliasResolved P h m d = Inr d1" "diverge (aliasIdPath h) q"
  shows "js_path d1 q = js_path d q"
  using aliasResolved_cases [OF assms(1)] assms(2) js_set_path_frame by blast

lemma aliasResolved_same:
  assumes r: "aliasResolved P k n d = Inr d1"
      and t: "js_path d (aliasTypePath k) = Inr (JStr ''DEVICE'')"
      and p: "P (GetDevices (listParams n)) = Inr page" "js_path page [''data'', ''0''] = Inr first"
  shows "js_path d1 (aliasIdPath k) = (if truthy first then js_path first [''id'', ''id''] else js_path d (aliasIdPath k))"
proof (cases "truthy first")
  case False
  then have "d1 = d" using r p by (simp add: aliasResolved_def)
  then show ?thesis using False by simp
next
  case True
  then obtain live where l: "js_path first [''id'', ''id''] = Inr live"
      "js_set_path d (aliasIdPath k) live = Inr d1"
    using r p by (auto simp: aliasResolved_def andThen_Inr)
  obtain fs where "js_path d (butlast (aliasIdPath k)) = Inr (JObj fs)"
    using alias_base_object [OF t] by blast
  then have "js_path d1 (aliasIdPath k) = Inr live"
    using js_set_path_same [OF l(2)] by (simp add: aliasIdPath_def)
  then show ?thesis using True l by simp
qed

lemma aliasContinuations_result:
  assumes "aliasContinuations P (aliasDeviceName d0) keys d = Inr d'"
      and "\<forall>h. js_path d (aliasTypePath h) = js_path d0 (aliasTypePath h)"
      and "aliasDeviceName d0 k = Inr (Some n)"
      and "P (GetDevices (listParams n)) = Inr page" "js_path page [''data'', ''0''] = Inr first"
  shows "js_path d' (aliasIdPath k) =
           (if truthy first \<and> k \<in> set keys then js_path first [''id'', ''id'']
            else js_path d (aliasIdPath k))"
  using assms(1,2)
proof (induction keys arbitrary: d)
  case Nil
  then show ?case by simp
next
  case (Cons h keys)
  show ?case
  proof (cases "aliasDeviceName d0 h")
    case (Inl e)
    then show ?thesis using Cons.prems by simp
  next
    case (Inr r)
    show ?thesis
    proof (cases r)
      case None
      then have "aliasContinuations P (aliasDeviceName d0) keys d = Inr d'"
        using Cons.prems Inr by simp
      from Cons.IH [OF this Cons.prems(2)] have
        "js_path d' (aliasIdPath k) =
           (if truthy first \<and> k \<in> set keys then js_path first [''id'', ''id'']
            else js_path d (aliasIdPath k))" .
      moreover have "h \<noteq> k" using None Inr assms(3) by auto
      ultimately show ?thesis by simp
    next
      case (Some m)
      then obtain d1 where d1: "aliasResolved P h m d = Inr d1"
          "aliasContinuations P (aliasDeviceName d0) keys d1 = Inr d'"
        using Cons.prems Inr by (auto simp: andThen_Inr)
      have inv1: "\<forall>h'. js_path d1 (aliasTypePath h') = js_path d0 (aliasTypePath h')"
        using aliasResolved_frame [OF d1(1) diverge_id_type] Cons.prems(2) by simp
      from Cons.IH [OF d1(2) inv1] have ih:
        "js_path d' (aliasIdPath k) =
           (if truthy first \<and> k \<in> set keys then js_path first [''id'', ''id'']
            else js_path d1 (aliasIdPath k))" .
      show ?thesis
      proof (cases "h = k")
        case False
        then have "js_path d1 (aliasIdPath k) = js_path d (aliasIdPath k)"
          using aliasResolved_frame [OF d1(1)] diverge_id_id by blast
        then show ?thesis using ih False by simp
      next
        case True
        then have mn: "m = n" using Some Inr assms(3) by simp
        have "js_path d (aliasTypePath k) = Inr (JStr ''DEVICE'')"
          using Cons.prems(2) aliasDeviceName_type [OF assms(3)] by simp
        from aliasResolved_same [OF d1(1) [unfolded True mn] this assms(4,5)]
        have "js_path d1 (aliasIdPath k) =
           (if truthy first then js_path first [''id'', ''id''] else js_path d (aliasIdPath k))" .
        then show ?thesis using ih True by simp
      qed
    qed
  qed
qed

lemma aliasResolved_succeeds:
  assumes t: "js_path d (aliasTypePath k) = Inr (JStr ''DEVICE'')"
      and p: "P (GetDevices (listParams n)) = Inr page" "js_path page [''data'', ''0''] = Inr first"
             "truthy first \<longrightarrow> \<not> isl (js_path first [''id'', ''id''])"
  shows "\<exists>d1. aliasResolved P k n d = Inr d1"
proof (cases "truthy first")
  case False
  then show ?thesis using p by (simp add: aliasResolved_def)
next
  case True
  then obtain live where l: "js_path first [''id'', ''id''] = Inr live"
    using p(3) by (cases "js_path first [''id'', ''id'']") auto
  obtain fs where "js_path d (aliasPath k @ [''filter'', ''singleEntity'']) = Inr (JObj fs)"
    using alias_base_object [OF t] by (auto simp: aliasIdPath_def butlast_append)
  then obtain d1 where "js_set_path d ((aliasPath k @ [''filter'', ''singleEntity'']) @ [''id'']) live = Inr d1"
    using js_set_path_succeeds by blast
  then show ?thesis using p True l by (simp add: aliasResolved_def aliasIdPath_def)
qed

lemma aliasContinuations_succeeds:
  assumes "\<forall>k\<in>set keys. \<not> isl (aliasDeviceName d0 k)"
      and "\<forall>k\<in>set keys. \<forall>n. aliasDeviceName d0 k = Inr (Some n) \<longrightarrow>
             (\<exists>page first. P (GetDevices (listParams n)) = Inr page
                \<and> js_path page [''data'', ''0''] = Inr first
                \<and> (truthy first \<longrightarrow> \<not> isl (js_path first [''id'', ''id''])))"
      and "\<forall>h. js_path d (aliasTypePath h) = js_path d0 (aliasTypePath h)"
  shows "\<exists>d'. aliasContinuations P (aliasDeviceName d0) keys d = Inr d'"
  using assms
proof (induction keys arbitrary: d)
  case Nil
  then show ?case by simp
next
  case (Cons h keys)
  from Cons.prems(1) obtain r where r: "aliasDeviceName d0 h = Inr r"
    by (cases "aliasDeviceName d0 h") auto
  show ?case
  proof (cases r)
    case None
    then show ?thesis using Cons r by simp
  next
    case (Some m)
    then obtain page first where p: "P (GetDevices (listParams m)) = Inr page"
        "js_path page [''data'', ''0''] = Inr first"
        "truthy first \<longrightarrow> \<not> isl (js_path first [''id'', ''id''])"
      using Cons.prems(2) r by fastforce
    have "js_path d (aliasTypePath h) = Inr (JStr ''DEVICE'')"
      using Cons.prems(3) aliasDeviceName_type r Some by simp
    with p obtain d1 where d1: "aliasResolved P h m d = Inr d1"
      using aliasResolved_succeeds [of d h P m page first] by blast
    have inv1: "\<forall>h'. js_path d1 (aliasTypePath h') = js_path d0 (aliasTypePath h')"
      using aliasResolved_frame [OF d1 diverge_id_type] Cons.prems(3) by simp
    have "\<exists>d'. aliasContinuations P (aliasDeviceName d0) keys d1 = Inr d'"
      using Cons.IH [OF _ _ inv1] Cons.prems(1,2) by simp
    then show ?thesis using r Some d1 by simp
  qed
qed

subsection \<open>What the other steps leave alone\<close>

lemma js_delete_frame:
  "js_delete v k = Inr v' \<Longrightarrow> k' \<noteq> k \<Longrightarrow> js_path v' (k' # q) = js_path v (k' # q)"
  by (cases v) (auto simp: js_get_def nullish_def)

lemma stripIds_frame:
  assumes "stripIds content = Inr d0"
  shows "js_path d0 (''configuration'' # q) = js_path content (''configuration'' # q)"
proof -
  from assms obtain a b where "js_delete content ''id'' = Inr a" "js_delete a ''createdTime'' = Inr b"
      "js_delete b ''tenantId'' = Inr d0"
    by (auto simp: stripIds_def andThen_Inr)
  then show ?thesis using js_delete_frame [of _ _ _ "''configuration''" q] by simp
qed

lemma stripIds_aliasDeviceName:
  assumes "stripIds content = Inr d0"
  shows "aliasDeviceName d0 k = aliasDeviceName content k"
proof -
  have "\<And>q. js_path d0 (aliasPath k @ q) = js_path content (aliasPath k @ q)"
    using stripIds_frame [OF assms] by (simp add: aliasPath_def del: js_path.simps)
  then show ?thesis unfolding aliasDeviceName_def aliasTypePath_def by (simp only:)
qed

lemma customerResolved_cases:
  assumes "customerResolved P i t d = Inr d1"
  shows "(\<exists>x. js_set_path d [''assignedCustomers'', string_of_nat i, ''customerId'', ''id''] x = Inr d1)
         \<or> (\<exists>x. js_set_path d [''assignedCustomers''] x = Inr d1)"
proof -
  from assms obtain page first where p: "P (GetCustomers (listParams t)) = Inr page"
      "js_path page [''data'', ''0''] = Inr first"
    unfolding customerResolved_def by (auto simp: andThen_Inr simp del: js_path.simps)
  show ?thesis
  proof (cases "truthy first")
    case True
    then show ?thesis using assms p unfolding customerResolved_def
      by (auto simp: andThen_Inr simp del: js_set_path.simps js_path.simps)
  next
    case False
    then obtain assigned where a: "js_get d ''assignedCustomers'' = Inr assigned"
        "(case assigned of JArr xs \<Rightarrow> js_set d ''assignedCustomers'' (JArr (splice1 i xs))
            | _ \<Rightarrow> Inl TypeError) = Inr d1"
      using assms p unfolding customerResolved_def
      by (auto simp: andThen_Inr simp del: js_set_path.simps js_path.simps)
    then show ?thesis by (cases assigned) auto
  qed
qed

lemma customerResolved_frame:
  assumes "customerResolved P i t d = Inr d1"
  shows "js_path d1 (''configuration'' # q) = js_path d (''configuration'' # q)"
  using customerResolved_cases [OF assms]
  by (elim disjE exE) (erule js_set_path_frame, simp)+

lemma customerContinuations_frame:
  "customerContinuations P titles schedule d = Inr d' \<Longrightarrow>
     js_path d' (''configuration'' # q) = js_path d (''configuration'' # q)"
proof (induction schedule arbitrary: d)
  case Nil
  then show ?case by simp
next
  case (Cons i schedule)
  then show ?case
    by (auto simp: andThen_Inr split: if_splits sum.splits dest: customerResolved_frame)
qed

lemma restoreCustomers_frame:
  "restoreCustomers P schedule d = (t, Inr d') \<Longrightarrow>
     js_path d' (''configuration'' # q) = js_path d (''configuration'' # q)"
  by (auto simp: restoreCustomers_def Let_def split: sum.splits if_splits json.splits
           dest: customerContinuations_frame)

text \<open>
  Claim C2.  Take a dashboard file whose content is not \<open>null\<close>, with alias keys \<open>keys\<close>,
  whose aliases can all be tested (no \<open>TypeError\<close> before the lookups), where every lookup
  answers with a page whose first entry, when there is one, carries an id, and where the
  step over the assigned customers does not throw.  Then the run ends with the creation
  call for the dashboard, and in the body it submits every single-entity device alias has,
  as its embedded id, the id of the first device the lookup by the alias name returned,
  or, when the lookup returned none, the id the file had.
\<close>

theorem restore_dashboard_alias_rewrite:
  assumes strip: "stripIds content = Inr d0"
      and keys: "andThen (js_path content [''configuration'', ''entityAliases'']) js_keys = Inr keys"
      and sync: "\<forall>k\<in>set keys. \<not> isl (aliasDeviceName content k)"
      and look: "\<forall>k\<in>set keys. \<forall>n. aliasDeviceName content k = Inr (Some n) \<longrightarrow>
             (\<exists>page first. P (GetDevices (listParams n)) = Inr page
                \<and> js_path page [''data'', ''0''] = Inr first
                \<and> (truthy first \<longrightarrow> \<not> isl (js_path first [''id'', ''id''])))"
      and cust: "\<forall>d1. snd (restoreAliases P d0) = Inr d1 \<longrightarrow>
             \<not> isl (snd (restoreCustomers P schedule d1))"
  shows "\<exists>t d'. fst (restoreDashboard P schedule content) = t @ [Call (SaveDashboard d')]
           \<and> (\<forall>k\<in>set keys. \<forall>n page first.
                 aliasDeviceName content k = Inr (Some n)
                 \<and> P (GetDevices (listParams n)) = Inr page
                 \<and> js_path page [''data'', ''0''] = Inr first \<longrightarrow>
                 js_path d' (aliasIdPath k) =
                   (if truthy first then js_path first [''id'', ''id'']
                    else js_path content (aliasIdPath k)))"
proof -
  have f: "aliasDeviceName d0 = aliasDeviceName content"
    using stripIds_aliasDeviceName [OF strip] by auto
  have k0: "andThen (js_path d0 [''configuration'', ''entityAliases'']) js_keys = Inr keys"
    using keys stripIds_frame [OF strip, of "[''entityAliases'']"] by simp
  have ra: "restoreAliases P d0 =
      (aliasCalls (map (aliasDeviceName d0) keys),
       aliasContinuations P (aliasDeviceName d0) keys d0)"
    using k0 by (simp add: restoreAliases_def del: js_path.simps)
  obtain d1 where d1: "aliasContinuations P (aliasDeviceName d0) keys d0 = Inr d1"
    using aliasContinuations_succeeds [of keys d0 P d0] sync look f by auto
  then have "\<not> isl (snd (restoreCustomers P schedule d1))" using cust ra by simp
  then obtain t2 d2 where rc: "restoreCustomers P schedule d1 = (t2, Inr d2)"
    by (cases "restoreCustomers P schedule d1"; cases "snd (restoreCustomers P schedule d1)") auto
  have run: "fst (restoreDashboard P schedule content) =
      (aliasCalls (map (aliasDeviceName d0) keys) @ t2) @ [Call (SaveDashboard d2)]"
    by (simp add: restoreDashboard_def strip ra d1 rc)
  have "js_path d2 (aliasIdPath k) =
          (if truthy first then js_path first [''id'', ''id''] else js_path content (aliasIdPath k))"
    if k: "k \<in> set keys" and n: "aliasDeviceName content k = Inr (Some n)"
      and p: "P (GetDevices (listParams n)) = Inr page" "js_path page [''data'', ''0''] = Inr first"
    for k n page first
  proof -
    have "js_path d2 (aliasIdPath k) = js_path d1 (aliasIdPath k)"
      using restoreCustomers_frame [OF rc] by (simp add: aliasIdPath_def aliasPath_def del: js_path.simps)
    also have "\<dots> = (if truthy first \<and> k \<in> set keys then js_path first [''id'', ''id'']
            else js_path d0 (aliasIdPath k))"
      using aliasContinuations_result [OF d1 _ _ p, of k] n f by simp
    also have "js_path d0 (aliasIdPath k) = js_path content (aliasIdPath k)"
      using stripIds_frame [OF strip] by (simp add: aliasIdPath_def aliasPath_def del: js_path.simps)
    finally show ?thesis using k by simp
  qed
  then show ?thesis using run by blast
qed

lemma lineDashboard_stripped:
  "stripIds lineDashboard = Inr (JObj [(''title'', JStr ''Line''),
     (''configuration'', JObj [
        (''entityAliases'', JObj [(''a1'', mkAlias ''pump'' ''DEVICE'' ''old-d1''),
                                  (''a2'', mkAlias ''ghost'' ''DEVICE'' ''old-d2'')])])])"
  by (simp add: stripIds_def lineDashboard_def)

lemma lineDashboard_names:
  "aliasDeviceName lineDashboard ''a1'' = Inr (Some (JStr ''pump''))"
  "aliasDeviceName lineDashboard ''a2'' = Inr (Some (JStr ''ghost''))"
  by (simp_all add: aliasDeviceName_def aliasTypePath_def aliasPath_def lineDashboard_def mkAlias_def
        js_get_def nullish_def)

text \<open>
  C2 on a dashboard with an alias \<open>pump\<close> (present on the target as \<open>dev-1\<close>) and an
  alias \<open>ghost\<close> (absent): the dashboard is created, the first alias points at
  \<open>dev-1\<close>, the second keeps \<open>old-d2\<close>.
\<close>

theorem restore_dashboard_alias_rewrite_witness:
  "\<exists>t d'. fst (restoreDashboard targetPlant [] lineDashboard) = t @ [Call (SaveDashboard d')]
      \<and> js_path d' (aliasIdPath ''a1'') = Inr (JStr ''dev-1'')
      \<and> js_path d' (aliasIdPath ''a2'') = Inr (JStr ''old-d2'')"
proof -
  let ?d0 = "JObj [(''title'', JStr ''Line''),
     (''configuration'', JObj [
        (''entityAliases'', JObj [(''a1'', mkAlias ''pump'' ''DEVICE'' ''old-d1''),
                                  (''a2'', mkAlias ''ghost'' ''DEVICE'' ''old-d2'')])])]"
  let ?found = "JObj [(''data'', JArr [JObj [(''id'', JObj [(''id'', JStr ''dev-1'')]), (''name'', JStr ''pump'')]])]"
  let ?none = "JObj [(''data'', JArr [])]"
  have keys: "andThen (js_path lineDashboard [''configuration'', ''entityAliases'']) js_keys = Inr [''a1'', ''a2'']"
    by (simp add: lineDashboard_def js_get_def nullish_def)
  have sync: "\<forall>k\<in>set [''a1'', ''a2'']. \<not> isl (aliasDeviceName lineDashboard k)"
    by (simp add: lineDashboard_names)
  have p1: "targetPlant (GetDevices (listParams (JStr ''pump''))) = Inr ?found"
       "js_path ?found [''data'', ''0''] = Inr (JObj [(''id'', JObj [(''id'', JStr ''dev-1'')]), (''name'', JStr ''pump'')])"
    by (simp_all add: listParams_def js_get_def nullish_def string_of_nat.simps digit_def)
  have p2: "targetPlant (GetDevices (listParams (JStr ''ghost''))) = Inr ?none"
       "js_path ?none [''data'', ''0''] = Inr JUndefined"
    by (simp_all add: listParams_def js_get_def nullish_def)
  have look: "\<forall>k\<in>set [''a1'', ''a2'']. \<forall>n. aliasDeviceName lineDashboard k = Inr (Some n) \<longrightarrow>
             (\<exists>page first. targetPlant (GetDevices (listParams n)) = Inr page
                \<and> js_path page [''data'', ''0''] = Inr first
                \<and> (truthy first \<longrightarrow> \<not> isl (js_path first [''id'', ''id''])))"
    using p1 p2 by (auto simp: lineDashboard_names js_get_def nullish_def simp del: js_path.simps)
       (simp_all add: js_get_def nullish_def)
  have ra: "snd (restoreAliases targetPlant ?d0) = Inr (JObj [(''title'', JStr ''Line''),
     (''configuration'', JObj [
        (''entityAliases'', JObj [(''a1'', mkAlias ''pump'' ''DEVICE'' ''dev-1''),
                                  (''a2'', mkAlias ''ghost'' ''DEVICE'' ''old-d2'')])])])"
    by (simp add: restoreAliases_def aliasDeviceName_def aliasResolved_def aliasTypePath_def
          aliasIdPath_def aliasPath_def mkAlias_def listParams_def js_get_def nullish_def
          string_of_nat.simps digit_def)
  have cust: "\<forall>d1. snd (restoreAliases targetPlant ?d0) = Inr d1 \<longrightarrow>
             \<not> isl (snd (restoreCustomers targetPlant [] d1))"
    by (simp add: ra restoreCustomers_def js_get_def nullish_def)
  from restore_dashboard_alias_rewrite [OF lineDashboard_stripped keys sync look cust]
  obtain t d' where r: "fst (restoreDashboard targetPlant [] lineDashboard) = t @ [Call (SaveDashboard d')]"
     and a: "\<forall>k\<in>set [''a1'', ''a2'']. \<forall>n page first.
                 aliasDeviceName lineDashboard k = Inr (Some n)
                 \<and> targetPlant (GetDevices (listParams n)) = Inr page
                 \<and> js_path page [''data'', ''0''] = Inr first \<longrightarrow>
                 js_path d' (aliasIdPath k) =
                   (if truthy first then js_path first [''id'', ''id'']
                    else js_path lineDashboard (aliasIdPath k))"
    by blast
  have m: "''a1'' \<in> set [''a1'', ''a2'']" "''a2'' \<in> set [''a1'', ''a2'']" by simp_all
  note i1 = a [THEN bspec, OF m(1), THEN spec, THEN spec, THEN spec, THEN mp,
               OF conjI [OF lineDashboard_names(1) conjI [OF p1]]]
  note i2 = a [THEN bspec, OF m(2), THEN spec, THEN spec, THEN spec, THEN mp,
               OF conjI [OF lineDashboard_names(2) conjI [OF p2]]]
  have "js_path d' (aliasIdPath ''a1'') = Inr (JStr ''dev-1'')"
    using i1 by (simp add: js_get_def nullish_def)
  moreover have "js_path lineDashboard (aliasIdPath ''a2'') = Inr (JStr ''old-d2'')"
    by (simp add: aliasIdPath_def aliasPath_def lineDashboard_def mkAlias_def js_get_def nullish_def)
  then have "js_path d' (aliasIdPath ''a2'') = Inr (JStr ''old-d2'')"
    using i2 by simp
  ultimately show ?thesis using r by blast
qed

text \<open>
  Claim C6.  Two assigned customers, neither known to the target, lookups answered in the
  order they were sent: the first callback removes entry 0, the second then removes
  position 1 of a list that has one entry left, so the dashboard is submitted with the
  second customer and its old id.  With an unknown customer followed by a known one, the
  second callback reads position 1 of the shortened list, \<open>undefined\<close>, and throws:
  the dashboard is not submitted at all.
\<close>

theorem assigned_customers_stale_index:
  "restoreDashboard targetCustomers [0, 1]
       (sharedDashboard [mkCustomer ''Acme'' ''old-c1'', mkCustomer ''Globex'' ''old-c2'']) =
     ([Call (GetCustomers (listParams (JStr ''Acme''))),
       Call (GetCustomers (listParams (JStr ''Globex''))),
       Call (SaveDashboard (sharedDashboard [mkCustomer ''Globex'' ''old-c2'']))],
      Inr ())
   \<and> restoreDashboard targetCustomers [0, 1]
       (sharedDashboard [mkCustomer ''Acme'' ''old-c1'', mkCustomer ''Initech'' ''old-c3'']) =
     ([Call (GetCustomers (listParams (JStr ''Acme''))),
       Call (GetCustomers (listParams (JStr ''Initech'')))],
      Inl TypeError)"
  by (simp add: restoreDashboard_def stripIds_def restoreAliases_def aliasCalls_def
        restoreCustomers_def customerCalls_def customerResolved_def sharedDashboard_def
        mkCustomer_def listParams_def js_get_def nullish_def splice1_def
        string_of_nat.simps digit_def)


section \<open>Export: properties\<close>

subsection \<open>Paths\<close>













subsection \<open>The files an export writes\<close>

lemma fanOut_effects: "set (fst (fanOut runs)) = (\<Union>r\<in>set runs. set (fst r))"
  by (simp add: fanOut_def)

lemma fetchAndWrite_writes:
  assumes "\<And>q b. g \<noteq> WriteFile q b"
  shows "Call (WriteFile p c) \<in> set (fst (fetchAndWrite P g path)) \<longleftrightarrow> P g = Inr c \<and> p = path"
  using assms by (cases "P g") (auto simp: fetchAndWrite_def)

lemma byId_writes:
  assumes "\<And>i q b. g i \<noteq> WriteFile q b"
  shows "Call (WriteFile p c)
           \<in> set (fst (case m of Inl e \<Rightarrow> ([], Inl e) | Inr i \<Rightarrow> fetchAndWrite P (g i) path))
         \<longleftrightarrow> (\<exists>i. m = Inr i \<and> P (g i) = Inr c \<and> p = path)"
proof (cases m)
  case (Inl e)
  then show ?thesis by simp
next
  case (Inr i)
  then show ?thesis using fetchAndWrite_writes [of "g i" p c P path] assms by simp
qed

lemma backupUser_writes:
  "Call (WriteFile p c) \<in> set (fst (backupUser P dir user)) \<longleftrightarrow>
     (\<exists>i. js_path user [''id'', ''id''] = Inr i \<and> P (GetUserById i) = Inr c
          \<and> p = path_join [dir, jsonFile (field user ''name'')])"
  unfolding backupUser_def by (rule byId_writes) simp

lemma backupUsersOf_writes:
  "Call (WriteFile p c) \<in> set (fst (backupUsersOf P entity owner noted recursive dir)) \<longleftrightarrow>
     (\<exists>i d us. js_path owner [''id'', ''id''] = Inr i
        \<and> P (GetEntityUsers entity i) = Inr d \<and> js_get d ''data'' = Inr (JArr us)
        \<and> \<not> isl (noted (JArr us)) \<and> \<not> isl (P (MakeDir dir recursive))
        \<and> (\<exists>user\<in>set us. Call (WriteFile p c) \<in> set (fst (backupUser P dir user))))"
proof (cases "js_path owner [''id'', ''id'']")
  case (Inl e)
  then show ?thesis by (simp add: backupUsersOf_def del: js_path.simps)
next
  case i: (Inr ownerId)
  let ?g = "GetEntityUsers entity ownerId"
  show ?thesis
  proof (cases "andThen (P ?g) (\<lambda>d. andThen (js_get d ''data'') (\<lambda>users.
                  andThen (noted users) (\<lambda>n. Inr users)))")
    case (Inl e)
    then have l: "fst (backupUsersOf P entity owner noted recursive dir) = [Call ?g, ConsoleLogError e]"
      using i by (simp add: backupUsersOf_def del: js_path.simps)
    have "\<not> (\<exists>d us. P ?g = Inr d \<and> js_get d ''data'' = Inr (JArr us) \<and> \<not> isl (noted (JArr us)))"
    proof
      assume "\<exists>d us. P ?g = Inr d \<and> js_get d ''data'' = Inr (JArr us) \<and> \<not> isl (noted (JArr us))"
      then obtain d us where "P ?g = Inr d" "js_get d ''data'' = Inr (JArr us)" "\<not> isl (noted (JArr us))"
        by blast
      then show False using Inl by (cases "noted (JArr us)") auto
    qed
    then show ?thesis using i by (auto simp: l simp del: js_path.simps)
  next
    case (Inr users)
    then obtain d n where d: "P ?g = Inr d" "js_get d ''data'' = Inr users" "noted users = Inr n"
      by (auto simp: andThen_Inr)
    show ?thesis
    proof (cases "P (MakeDir dir recursive)")
      case (Inl e)
      then have "fst (backupUsersOf P entity owner noted recursive dir) = [Call ?g, Call (MakeDir dir recursive)]"
        using i Inr by (simp add: backupUsersOf_def del: js_path.simps)
      then show ?thesis using i Inl by (auto simp del: js_path.simps)
    next
      case m: (Inr u)
      show ?thesis
      proof (cases "\<exists>us. users = JArr us")
        case True
        then obtain us where us: "users = JArr us" by blast
        then have "fst (backupUsersOf P entity owner noted recursive dir) =
            [Call ?g, Call (MakeDir dir recursive)] @ concat (map (\<lambda>user. fst (backupUser P dir user)) us)"
          using i Inr m by (simp add: backupUsersOf_def del: js_path.simps)
        then show ?thesis using i d m us by (auto simp del: js_path.simps)
      next
        case False
        then have "fst (backupUsersOf P entity owner noted recursive dir) = [Call ?g, Call (MakeDir dir recursive)]"
          using i Inr m by (cases users) (simp_all add: backupUsersOf_def del: js_path.simps)
        then show ?thesis using i d False by (auto simp del: js_path.simps)
      qed
    qed
  qed
qed

lemma plantDir_dashboards:
  "path_join [plantDir, ''dashboards'', jsonFile (JStr ''Base'')] = ''backups/tenants/Plant/dashboards/Base.json''"
  by (simp add: path_join_def posix_normalize_def plantDir_def jsonFile_def Let_def)

lemma plantDir_devices:
  "path_join [plantDir, ''devices'', jsonFile (JStr ''Sensor-7'')] = ''backups/tenants/Plant/devices/Sensor-7.json''"
  by (simp add: path_join_def posix_normalize_def plantDir_def jsonFile_def Let_def)

lemma backupRuleChain_writes:
  "Call (WriteFile p c) \<in> set (fst (backupRuleChain P tenantDir entity)) \<longleftrightarrow>
     (\<exists>i. js_path entity [''id'', ''id''] = Inr i \<and> P (GetRuleChainById i) = Inr c
          \<and> p = path_join [tenantDir, ''ruleChains'', jsonFile (field entity ''name'')])"
  unfolding backupRuleChain_def by (rule byId_writes) simp

lemma backupWidgetBundle_writes:
  "Call (WriteFile p c) \<in> set (fst (backupWidgetBundle P tenantDir entity)) \<longleftrightarrow>
     (\<exists>a. js_get entity ''alias'' = Inr a \<and> P (GetWidgetBundlesData a False) = Inr c
          \<and> p = path_join [tenantDir, ''widgets'', jsonFile (field entity ''title'')])"
  unfolding backupWidgetBundle_def by (rule byId_writes) simp

lemma backupDashboard_writes:
  "Call (WriteFile p c) \<in> set (fst (backupDashboard P tenantDir entity)) \<longleftrightarrow>
     (\<exists>i. js_path entity [''id'', ''id''] = Inr i \<and> P (GetDashboardById i) = Inr c
          \<and> p = path_join [tenantDir, ''dashboards'', jsonFile (field entity ''name'')])"
  unfolding backupDashboard_def by (rule byId_writes) simp

lemma backupCustomer_writes:
  "Call (WriteFile p c) \<in> set (fst (backupCustomer P tenantDir entity)) \<longleftrightarrow>
     (\<exists>i. js_path entity [''id'', ''id''] = Inr i
        \<and> (P (GetCustomerById i) = Inr c
             \<and> p = path_join [tenantDir, ''customers'', jsonFile (field entity ''name'')]
           \<or> (\<exists>d us. P (GetEntityUsers ''customer'' i) = Inr d \<and> js_get d ''data'' = Inr (JArr us)
                \<and> \<not> isl (P (MakeDir (path_join [tenantDir, ''customers'', to_string (field entity ''name'')]) False))
                \<and> (\<exists>user\<in>set us. \<exists>u. js_path user [''id'', ''id''] = Inr u \<and> P (GetUserById u) = Inr c
                      \<and> p = path_join [path_join [tenantDir, ''customers'', to_string (field entity ''name'')],
                                        jsonFile (field user ''name'')]))))"
proof -
  let ?dir = "path_join [tenantDir, ''customers'', to_string (field entity ''name'')]"
  let ?own = "case js_path entity [''id'', ''id''] of
          Inl e \<Rightarrow> ([], Inl e)
        | Inr customerId \<Rightarrow>
            fetchAndWrite P (GetCustomerById customerId)
              (path_join [tenantDir, ''customers'', jsonFile (field entity ''name'')])"
  let ?users = "backupUsersOf P ''customer'' entity (\<lambda>users. Inr JUndefined) False ?dir"
  have "Call (WriteFile p c) \<in> set (fst (backupCustomer P tenantDir entity)) \<longleftrightarrow>
      Call (WriteFile p c) \<in> set (fst ?own) \<or> Call (WriteFile p c) \<in> set (fst ?users)"
    unfolding backupCustomer_def fanOut_effects by (simp del: js_path.simps)
  moreover have "Call (WriteFile p c) \<in> set (fst ?own) \<longleftrightarrow>
      (\<exists>i. js_path entity [''id'', ''id''] = Inr i \<and> P (GetCustomerById i) = Inr c
          \<and> p = path_join [tenantDir, ''customers'', jsonFile (field entity ''name'')])"
    by (rule byId_writes) simp
  moreover have "Call (WriteFile p c) \<in> set (fst ?users) \<longleftrightarrow>
      (\<exists>i d us. js_path entity [''id'', ''id''] = Inr i
        \<and> P (GetEntityUsers ''customer'' i) = Inr d \<and> js_get d ''data'' = Inr (JArr us)
        \<and> \<not> isl (P (MakeDir ?dir False))
        \<and> (\<exists>user\<in>set us. \<exists>u. js_path user [''id'', ''id''] = Inr u \<and> P (GetUserById u) = Inr c
               \<and> p = path_join [?dir, jsonFile (field user ''name'')]))"
    unfolding backupUsersOf_writes backupUser_writes by (simp del: js_path.simps)
  ultimately show ?thesis by blast
qed

lemma backupTenant_writes:
  "Call (WriteFile p c) \<in> set (fst (backupTenant P baseDir entity)) \<longleftrightarrow>
     (\<exists>i. js_path entity [''id'', ''id''] = Inr i
        \<and> (P (GetTenantById i) = Inr c
             \<and> p = path_join [baseDir, ''tenants'', jsonFile (field entity ''name'')]
           \<or> (\<exists>d us. P (GetEntityUsers ''tenant'' i) = Inr d \<and> js_get d ''data'' = Inr (JArr us)
                \<and> \<not> isl (firstAdminId (JArr us))
                \<and> \<not> isl (P (MakeDir (path_join [baseDir, ''tenants'', to_string (field entity ''name''), ''tenantAdmins'']) True))
                \<and> (\<exists>user\<in>set us. \<exists>u. js_path user [''id'', ''id''] = Inr u \<and> P (GetUserById u) = Inr c
                      \<and> p = path_join [path_join [baseDir, ''tenants'', to_string (field entity ''name''), ''tenantAdmins''],
                                        jsonFile (field user ''name'')]))))"
proof -
  let ?dir = "path_join [baseDir, ''tenants'', to_string (field entity ''name''), ''tenantAdmins'']"
  let ?own = "case js_path entity [''id'', ''id''] of
          Inl e \<Rightarrow> ([], Inl e)
        | Inr tenantId \<Rightarrow>
            fetchAndWrite P (GetTenantById tenantId)
              (path_join [baseDir, ''tenants'', jsonFile (field entity ''name'')])"
  let ?users = "backupUsersOf P ''tenant'' entity firstAdminId True ?dir"
  have "Call (WriteFile p c) \<in> set (fst (backupTenant P baseDir entity)) \<longleftrightarrow>
      Call (WriteFile p c) \<in> set (fst ?own) \<or> Call (WriteFile p c) \<in> set (fst ?users)"
    unfolding backupTenant_def fanOut_effects by (simp del: js_path.simps)
  moreover have "Call (WriteFile p c) \<in> set (fst ?own) \<longleftrightarrow>
      (\<exists>i. js_path entity [''id'', ''id''] = Inr i \<and> P (GetTenantById i) = Inr c
          \<and> p = path_join [baseDir, ''tenants'', jsonFile (field entity ''name'')])"
    by (rule byId_writes) simp
  moreover have "Call (WriteFile p c) \<in> set (fst ?users) \<longleftrightarrow>
      (\<exists>i d us. js_path entity [''id'', ''id''] = Inr i
        \<and> P (GetEntityUsers ''tenant'' i) = Inr d \<and> js_get d ''data'' = Inr (JArr us)
        \<and> \<not> isl (firstAdminId (JArr us))
        \<and> \<not> isl (P (MakeDir ?dir True))
        \<and> (\<exists>user\<in>set us. \<exists>u. js_path user [''id'', ''id''] = Inr u \<and> P (GetUserById u) = Inr c
               \<and> p = path_join [?dir, jsonFile (field user ''name'')]))"
    unfolding backupUsersOf_writes backupUser_writes by (simp del: js_path.simps)
  ultimately show ?thesis by blast
qed

subsection \<open>Export of dashboards and devices\<close>

lemma mapE_Inr:
  "mapE f xs = Inr ys \<longleftrightarrow> list_all2 (\<lambda>x y. f x = Inr y) xs ys"
proof (induction xs arbitrary: ys)
  case Nil
  then show ?case by auto
next
  case (Cons x xs)
  show ?case by (cases ys) (auto simp: andThen_Inr Cons.IH)
qed

lemma mapE_succeeds: "\<forall>x\<in>set xs. \<not> isl (f x) \<Longrightarrow> \<exists>ys. mapE f xs = Inr ys"
proof (induction xs)
  case Nil
  then show ?case by simp
next
  case (Cons x xs)
  then obtain y ys where "f x = Inr y" "mapE f xs = Inr ys"
    by (cases "f x") auto
  then show ?case by simp
qed

lemma js_delete_fields:
  "js_delete v k = Inr v' \<Longrightarrow> named k \<Longrightarrow> k \<noteq> ''length'' \<Longrightarrow>
     field v' k = JUndefined \<and> (\<forall>k'. k' \<noteq> k \<longrightarrow> field v' k' = field v k')"
  by (cases v) (auto simp: delete_conv' index_get_named)

lemma js_delete_succeeds: "\<not> nullish v \<Longrightarrow> \<exists>v'. js_delete v k = Inr v'"
  by (cases v) (auto simp: nullish_def)

lemma named_lastUpdateTs: "named ''lastUpdateTs''"
  by (simp add: named_def)

lemma dropLastUpdateTs_array:
  assumes "\<forall>item\<in>set items. \<not> nullish item"
  shows "\<exists>items'. dropLastUpdateTs (JArr items) = Inr (JArr items')
           \<and> list_all2 withoutLastUpdateTs items items'"
proof -
  have "\<forall>item\<in>set items. \<not> isl (js_delete item ''lastUpdateTs'')"
  proof
    fix item assume "item \<in> set items"
    then obtain v' where "js_delete item ''lastUpdateTs'' = Inr v'"
      using assms js_delete_succeeds by blast
    then show "\<not> isl (js_delete item ''lastUpdateTs'')" by simp
  qed
  then obtain items' where m: "mapE (\<lambda>item. js_delete item ''lastUpdateTs'') items = Inr items'"
    using mapE_succeeds [of items "\<lambda>item. js_delete item ''lastUpdateTs''"] by blast
  then have "list_all2 (\<lambda>x y. js_delete x ''lastUpdateTs'' = Inr y) items items'"
    by (simp add: mapE_Inr)
  then have "list_all2 withoutLastUpdateTs items items'"
    by (rule list_all2_mono)
       (use js_delete_fields named_lastUpdateTs in auto)
  then show ?thesis using m by (simp add: dropLastUpdateTs_def)
qed

lemma backupDashboard_run:
  assumes "js_path dashboard [''id'', ''id''] = Inr dashboardId \<and> P (GetDashboardById dashboardId) = Inr body"
  shows "backupDashboard P tenantDir dashboard =
        ([Call (GetDashboardById dashboardId),
          Call (WriteFile (path_join [tenantDir, ''dashboards'', jsonFile (field dashboard ''name'')]) body)],
         case P (WriteFile (path_join [tenantDir, ''dashboards'', jsonFile (field dashboard ''name'')]) body) of
           Inl e \<Rightarrow> Inl e | Inr u \<Rightarrow> Inr ())"
  using assms by (simp add: backupDashboard_def fetchAndWrite_def del: js_path.simps)

lemma backupDevice_composite:
  assumes a: "js_path device [''id'', ''id''] = Inr deviceId
      \<and> P (GetDeviceAttributesByScope deviceId SERVER_SCOPE) = Inr (JArr sv)
      \<and> P (GetDeviceAttributesByScope deviceId SHARED_SCOPE) = Inr (JArr sh)
      \<and> P (GetDeviceAttributesByScope deviceId CLIENT_SCOPE) = Inr (JArr cl)
      \<and> P (GetDeviceCredentials deviceId) = Inr credentials
      \<and> \<not> nullish credentials
      \<and> (\<forall>item\<in>set (sv @ sh @ cl). \<not> nullish item)"
  shows "\<exists>sv' sh' cl'.
         fst (backupDevice P tenantDir device) =
           [Call (GetDeviceAttributesByScope deviceId SERVER_SCOPE),
            Call (GetDeviceAttributesByScope deviceId SHARED_SCOPE),
            Call (GetDeviceAttributesByScope deviceId CLIENT_SCOPE),
            Call (GetDeviceCredentials deviceId),
            Call (WriteFile (path_join [tenantDir, ''devices'', jsonFile (field device ''name'')])
                    (JObj [(''accessToken'', field credentials ''credentialsId''),
                           (''attributes'',
                            JObj [(''server'', JArr sv'), (''shared'', JArr sh'), (''client'', JArr cl')])]))]
         \<and> list_all2 withoutLastUpdateTs sv sv'
         \<and> list_all2 withoutLastUpdateTs sh sh'
         \<and> list_all2 withoutLastUpdateTs cl cl'"
proof -
  obtain sv' where sv: "dropLastUpdateTs (JArr sv) = Inr (JArr sv')" "list_all2 withoutLastUpdateTs sv sv'"
    using dropLastUpdateTs_array [of sv] a by auto
  obtain sh' where sh: "dropLastUpdateTs (JArr sh) = Inr (JArr sh')" "list_all2 withoutLastUpdateTs sh sh'"
    using dropLastUpdateTs_array [of sh] a by auto
  obtain cl' where cl: "dropLastUpdateTs (JArr cl) = Inr (JArr cl')" "list_all2 withoutLastUpdateTs cl cl'"
    using dropLastUpdateTs_array [of cl] a by auto
  have "fst (backupDevice P tenantDir device) =
           [Call (GetDeviceAttributesByScope deviceId SERVER_SCOPE),
            Call (GetDeviceAttributesByScope deviceId SHARED_SCOPE),
            Call (GetDeviceAttributesByScope deviceId CLIENT_SCOPE),
            Call (GetDeviceCredentials deviceId),
            Call (WriteFile (path_join [tenantDir, ''devices'', jsonFile (field device ''name'')])
                    (JObj [(''accessToken'', field credentials ''credentialsId''),
                           (''attributes'',
                            JObj [(''server'', JArr sv'), (''shared'', JArr sh'), (''client'', JArr cl')])]))]"
    using a sv(1) sh(1) cl(1) by (simp add: backupDevice_def js_get_def Let_def del: js_path.simps)
  then show ?thesis using sv(2) sh(2) cl(2) by blast
qed


subsection \<open>What a restored dashboard is submitted with\<close>

lemma js_delete_not_nullish: "js_delete v k = Inr v' \<Longrightarrow> \<not> nullish v'"
  by (cases v) (auto simp: nullish_def)

lemma stripIds_fields:
  assumes "stripIds content = Inr restored"
  shows "\<not> nullish restored
     \<and> field restored ''id'' = JUndefined \<and> field restored ''createdTime'' = JUndefined
     \<and> field restored ''tenantId'' = JUndefined
     \<and> (\<forall>k. k \<notin> {''id'', ''createdTime'', ''tenantId''} \<longrightarrow> field restored k = field content k)"
proof -
  from assms obtain a b where d: "js_delete content ''id'' = Inr a"
      "js_delete a ''createdTime'' = Inr b" "js_delete b ''tenantId'' = Inr restored"
    by (auto simp: stripIds_def andThen_Inr)
  have n: "named ''id''" "named ''createdTime''" "named ''tenantId''" by (simp_all add: named_def)
  from js_delete_fields [OF d(1) n(1)] js_delete_fields [OF d(2) n(2)] js_delete_fields [OF d(3) n(3)]
    js_delete_not_nullish [OF d(3)]
  show ?thesis by simp
qed

lemma aliasContinuations_top:
  "aliasContinuations P f keys d = Inr d' \<Longrightarrow> k \<noteq> ''configuration'' \<Longrightarrow>
     js_path d' [k] = js_path d [k]"
proof (induction keys arbitrary: d)
  case Nil
  then show ?case by simp
next
  case (Cons key keys)
  show ?case
  proof (cases "f key")
    case (Inl e)
    then show ?thesis using Cons.prems by simp
  next
    case (Inr name)
    show ?thesis
    proof (cases name)
      case None
      then show ?thesis using Cons Inr by simp
    next
      case (Some deviceName)
      then obtain d1 where d1: "aliasResolved P key deviceName d = Inr d1"
          "aliasContinuations P f keys d1 = Inr d'"
        using Cons.prems Inr by (auto simp: andThen_Inr)
      have "diverge (aliasIdPath key) [k]" using Cons.prems(2) by (simp add: aliasIdPath_def aliasPath_def)
      then have "js_path d1 [k] = js_path d [k]" using aliasResolved_frame [OF d1(1)] by blast
      moreover have "js_path d' [k] = js_path d1 [k]" using Cons.IH [OF d1(2) Cons.prems(2)] .
      ultimately show ?thesis by simp
    qed
  qed
qed

lemma aliasCalls_effects: "x \<in> set (aliasCalls names) \<Longrightarrow> \<exists>p. x = Call (GetDevices p)"
  by (auto simp: aliasCalls_def split: sum.splits option.splits)

lemma restoreAliases_effects:
  "x \<in> set (fst (restoreAliases P d)) \<Longrightarrow> \<exists>p. x = Call (GetDevices p)"
  by (cases "andThen (js_path d [''configuration'', ''entityAliases'']) js_keys")
     (auto simp: restoreAliases_def simp del: js_path.simps dest: aliasCalls_effects)

lemma restoreAliases_top:
  assumes "restoreAliases P d = (t, Inr d')" "k \<noteq> ''configuration''"
  shows "js_path d' [k] = js_path d [k]"
proof (cases "andThen (js_path d [''configuration'', ''entityAliases'']) js_keys")
  case (Inl e)
  then show ?thesis using assms by (simp add: restoreAliases_def del: js_path.simps)
next
  case (Inr keys)
  then have "aliasContinuations P (aliasDeviceName d) keys d = Inr d'"
    using assms by (simp_all add: restoreAliases_def del: js_path.simps)
  then show ?thesis using aliasContinuations_top assms(2) by blast
qed

lemma customerResolved_top:
  assumes "customerResolved P i t d = Inr d1" "k \<noteq> ''assignedCustomers''"
  shows "js_path d1 [k] = js_path d [k]"
  using customerResolved_cases [OF assms(1)] assms(2)
  by (elim disjE exE) (erule js_set_path_frame, simp)+

lemma customerContinuations_top:
  "customerContinuations P titles schedule d = Inr d' \<Longrightarrow> k \<noteq> ''assignedCustomers'' \<Longrightarrow>
     js_path d' [k] = js_path d [k]"
proof (induction schedule arbitrary: d)
  case Nil
  then show ?case by simp
next
  case (Cons i schedule)
  show ?case
  proof (cases "i < length titles")
    case False
    then show ?thesis using Cons by simp
  next
    case True
    then obtain title d1 where d1: "titles ! i = Inr title" "customerResolved P i title d = Inr d1"
        "customerContinuations P titles schedule d1 = Inr d'"
      using Cons.prems(1) by (cases "titles ! i") (auto simp: andThen_Inr)
    have "js_path d1 [k] = js_path d [k]" using customerResolved_top [OF d1(2) Cons.prems(2)] .
    moreover have "js_path d' [k] = js_path d1 [k]" using Cons.IH [OF d1(3) Cons.prems(2)] .
    ultimately show ?thesis by simp
  qed
qed

lemma customerCalls_effects: "x \<in> set (customerCalls titles) \<Longrightarrow> \<exists>p. x = Call (GetCustomers p)"
  by (auto simp: customerCalls_def split: sum.splits)

lemma restoreCustomers_cases:
  "restoreCustomers P schedule d = ([], Inl TypeError)
   \<or> restoreCustomers P schedule d = ([], Inr d)
   \<or> (\<exists>titles r. restoreCustomers P schedule d = (customerCalls titles, r)
         \<and> (r = Inl TypeError \<or> r = customerContinuations P titles schedule d))"
proof (cases "js_get d ''assignedCustomers''")
  case (Inl e)
  then show ?thesis by (auto simp: restoreCustomers_def js_get_def split: if_splits)
next
  case (Inr assigned)
  show ?thesis
  proof (cases "truthy assigned")
    case False
    then show ?thesis using Inr by (simp add: restoreCustomers_def)
  next
    case True
    then show ?thesis using Inr by (cases assigned) (auto simp: restoreCustomers_def Let_def)
  qed
qed

lemma restoreCustomers_effects:
  "x \<in> set (fst (restoreCustomers P schedule d)) \<Longrightarrow> \<exists>p. x = Call (GetCustomers p)"
  using restoreCustomers_cases [of P schedule d] by (auto dest: customerCalls_effects)

lemma restoreCustomers_top:
  assumes "restoreCustomers P schedule d = (t, Inr d')" "k \<noteq> ''assignedCustomers''"
  shows "js_path d' [k] = js_path d [k]"
  using restoreCustomers_cases [of P schedule d] assms customerContinuations_top [of P _ schedule d d' k]
  by (auto simp del: js_path.simps)

lemma restoreDashboard_submits:
  assumes "Call (SaveDashboard b) \<in> set (fst (restoreDashboard P schedule content))"
  shows "\<exists>d0. stripIds content = Inr d0
           \<and> (\<forall>k. k \<notin> {''configuration'', ''assignedCustomers''} \<longrightarrow> js_path b [k] = js_path d0 [k])"
proof (cases "stripIds content")
  case (Inl e)
  then show ?thesis using assms by (simp add: restoreDashboard_def)
next
  case (Inr d0)
  obtain t1 r1 where r1: "restoreAliases P d0 = (t1, r1)" by (cases "restoreAliases P d0")
  have t1: "Call (SaveDashboard b) \<notin> set t1"
    using restoreAliases_effects [of "Call (SaveDashboard b)" P d0] r1 by auto
  show ?thesis
  proof (cases r1)
    case (Inl e)
    then have "fst (restoreDashboard P schedule content) = t1"
      using Inr r1 by (simp add: restoreDashboard_def)
    then show ?thesis using assms t1 by simp
  next
    case d1: (Inr d1)
    obtain t2 r2 where r2: "restoreCustomers P schedule d1 = (t2, r2)"
      by (cases "restoreCustomers P schedule d1")
    have t2: "Call (SaveDashboard b) \<notin> set t2"
      using restoreCustomers_effects [of "Call (SaveDashboard b)" P schedule d1] r2 by auto
    show ?thesis
    proof (cases r2)
      case (Inl e)
      then have "fst (restoreDashboard P schedule content) = t1 @ t2"
        using Inr r1 d1 r2 by (simp add: restoreDashboard_def)
      then show ?thesis using assms t1 t2 by simp
    next
      case d2: (Inr d2)
      then have "fst (restoreDashboard P schedule content) = t1 @ t2 @ [Call (SaveDashboard d2)]"
        using Inr r1 d1 r2 by (simp add: restoreDashboard_def)
      then have b: "b = d2" using assms t1 t2 by simp
      have "js_path b [k] = js_path d0 [k]" if "k \<notin> {''configuration'', ''assignedCustomers''}" for k
      proof -
        have "js_path d2 [k] = js_path d1 [k]"
          using restoreCustomers_top [of P schedule d1 t2 d2 k] r2 d2 that by simp
        moreover have "js_path d1 [k] = js_path d0 [k]"
          using restoreAliases_top [of P d0 t1 d1 k] r1 d1 that by simp
        ultimately show ?thesis using b by simp
      qed
      then show ?thesis using Inr by blast
    qed
  qed
qed

lemma js_path_single: "js_path v [k] = js_get v k"
  by (cases "js_get v k") simp_all

lemma restoreDashboard_submitted_fields:
  assumes "Call (SaveDashboard b) \<in> set (fst (restoreDashboard P schedule content))"
  shows "field b ''id'' = JUndefined \<and> field b ''createdTime'' = JUndefined
       \<and> field b ''tenantId'' = JUndefined
       \<and> (\<forall>k. k \<notin> {''id'', ''createdTime'', ''tenantId'', ''configuration'', ''assignedCustomers''} \<longrightarrow>
              field b k = field content k)"
proof -
  obtain d0 where d0: "stripIds content = Inr d0"
      "\<And>k. k \<notin> {''configuration'', ''assignedCustomers''} \<Longrightarrow> js_path b [k] = js_path d0 [k]"
    using restoreDashboard_submits [OF assms] by blast
  note s = stripIds_fields [OF d0(1)]
  have f: "field b k = field d0 k" if "k \<notin> {''configuration'', ''assignedCustomers''}" for k
  proof -
    have "js_get b k = js_get d0 k" using d0(2) [OF that] by (simp only: js_path_single)
    then have "js_get b k = Inr (field d0 k)" using s by (simp add: js_get_def)
    then show ?thesis by (simp add: js_get_Inr)
  qed
  have "field b ''id'' = field d0 ''id''" "field b ''createdTime'' = field d0 ''createdTime''"
       "field b ''tenantId'' = field d0 ''tenantId''"
    by (rule f, simp)+
  moreover have "field b k = field content k"
    if "k \<notin> {''id'', ''createdTime'', ''tenantId'', ''configuration'', ''assignedCustomers''}" for k
    using f [of k] s that by simp
  ultimately show ?thesis using s by simp
qed

text \<open>
  Claim C3, as amended.  The export strips nothing.  A file the export of a rule chain, a
  widget bundle, a dashboard or a user writes is the file named after that entity and
  holds the body fetched for that entity (by its id, or by the bundle's alias); nothing
  else is written by it.  The export of a customer or a tenant writes the body fetched
  for it and, when the listing of its users and the directory for them succeed, the body
  fetched for each of these users.  A dashboard whose body can be fetched is exported by
  one request and one write of the body as fetched.  A device is exported as
  \<open>{accessToken, attributes: {server, shared, client}}\<close>, the access token being the
  credentials' \<open>credentialsId\<close> and every attribute entry losing \<open>lastUpdateTs\<close> and
  nothing else.  The properties \<open>id\<close>, \<open>createdTime\<close> and \<open>tenantId\<close> are removed
  when a dashboard file is restored: the body the restore submits has none of them, and
  every other property outside \<open>configuration\<close> and \<open>assignedCustomers\<close> as the
  file has it.
\<close>

theorem export_writes_fetched_body:
  "(Call (WriteFile p c) \<in> set (fst (backupRuleChain P tenantDir entity)) \<longleftrightarrow>
     (\<exists>i. js_path entity [''id'', ''id''] = Inr i \<and> P (GetRuleChainById i) = Inr c
          \<and> p = path_join [tenantDir, ''ruleChains'', jsonFile (field entity ''name'')]))
   \<and> (Call (WriteFile p c) \<in> set (fst (backupWidgetBundle P tenantDir entity)) \<longleftrightarrow>
     (\<exists>a. js_get entity ''alias'' = Inr a \<and> P (GetWidgetBundlesData a False) = Inr c
          \<and> p = path_join [tenantDir, ''widgets'', jsonFile (field entity ''title'')]))
   \<and> (Call (WriteFile p c) \<in> set (fst (backupDashboard P tenantDir entity)) \<longleftrightarrow>
     (\<exists>i. js_path entity [''id'', ''id''] = Inr i \<and> P (GetDashboardById i) = Inr c
          \<and> p = path_join [tenantDir, ''dashboards'', jsonFile (field entity ''name'')]))
   \<and> (Call (WriteFile p c) \<in> set (fst (backupUser P dir entity)) \<longleftrightarrow>
     (\<exists>i. js_path entity [''id'', ''id''] = Inr i \<and> P (GetUserById i) = Inr c
          \<and> p = path_join [dir, jsonFile (field entity ''name'')]))
   \<and> (Call (WriteFile p c) \<in> set (fst (backupCustomer P tenantDir entity)) \<longleftrightarrow>
     (\<exists>i. js_path entity [''id'', ''id''] = Inr i
        \<and> (P (GetCustomerById i) = Inr c
             \<and> p = path_join [tenantDir, ''customers'', jsonFile (field entity ''name'')]
           \<or> (\<exists>d us. P (GetEntityUsers ''customer'' i) = Inr d \<and> js_get d ''data'' = Inr (JArr us)
                \<and> \<not> isl (P (MakeDir (path_join [tenantDir, ''customers'', to_string (field entity ''name'')]) False))
                \<and> (\<exists>user\<in>set us. \<exists>u. js_path user [''id'', ''id''] = Inr u \<and> P (GetUserById u) = Inr c
                      \<and> p = path_join [path_join [tenantDir, ''customers'', to_string (field entity ''name'')],
                                        jsonFile (field user ''name'')])))))
   \<and> (Call (WriteFile p c) \<in> set (fst (backupTenant P baseDir entity)) \<longleftrightarrow>
     (\<exists>i. js_path entity [''id'', ''id''] = Inr i
        \<and> (P (GetTenantById i) = Inr c
             \<and> p = path_join [baseDir, ''tenants'', jsonFile (field entity ''name'')]
           \<or> (\<exists>d us. P (GetEntityUsers ''tenant'' i) = Inr d \<and> js_get d ''data'' = Inr (JArr us)
                \<and> \<not> isl (firstAdminId (JArr us))
                \<and> \<not> isl (P (MakeDir (path_join [baseDir, ''tenants'', to_string (field entity ''name''), ''tenantAdmins'']) True))
                \<and> (\<exists>user\<in>set us. \<exists>u. js_path user [''id'', ''id''] = Inr u \<and> P (GetUserById u) = Inr c
                      \<and> p = path_join [path_join [baseDir, ''tenants'', to_string (field entity ''name''), ''tenantAdmins''],
                                        jsonFile (field user ''name'')])))))
   \<and> (js_path dashboard [''id'', ''id''] = Inr dashboardId \<and> P (GetDashboardById dashboardId) = Inr body \<longrightarrow>
      backupDashboard P tenantDir dashboard =
        ([Call (GetDashboardById dashboardId),
          Call (WriteFile (path_join [tenantDir, ''dashboards'', jsonFile (field dashboard ''name'')]) body)],
         case P (WriteFile (path_join [tenantDir, ''dashboards'', jsonFile (field dashboard ''name'')]) body) of
           Inl e \<Rightarrow> Inl e | Inr u \<Rightarrow> Inr ()))
   \<and> (js_path device [''id'', ''id''] = Inr deviceId
      \<and> P (GetDeviceAttributesByScope deviceId SERVER_SCOPE) = Inr (JArr sv)
      \<and> P (GetDeviceAttributesByScope deviceId SHARED_SCOPE) = Inr (JArr sh)
      \<and> P (GetDeviceAttributesByScope deviceId CLIENT_SCOPE) = Inr (JArr cl)
      \<and> P (GetDeviceCredentials deviceId) = Inr credentials
      \<and> \<not> nullish credentials
      \<and> (\<forall>item\<in>set (sv @ sh @ cl). \<not> nullish item) \<longrightarrow>
      (\<exists>sv' sh' cl'.
         fst (backupDevice P tenantDir device) =
           [Call (GetDeviceAttributesByScope deviceId SERVER_SCOPE),
            Call (GetDeviceAttributesByScope deviceId SHARED_SCOPE),
            Call (GetDeviceAttributesByScope deviceId CLIENT_SCOPE),
            Call (GetDeviceCredentials deviceId),
            Call (WriteFile (path_join [tenantDir, ''devices'', jsonFile (field device ''name'')])
                    (JObj [(''accessToken'', field credentials ''credentialsId''),
                           (''attributes'',
                            JObj [(''server'', JArr sv'), (''shared'', JArr sh'), (''client'', JArr cl')])]))]
         \<and> list_all2 withoutLastUpdateTs sv sv'
         \<and> list_all2 withoutLastUpdateTs sh sh'
         \<and> list_all2 withoutLastUpdateTs cl cl'))
   \<and> (Call (SaveDashboard submitted) \<in> set (fst (restoreDashboard P schedule content)) \<longrightarrow>
        field submitted ''id'' = JUndefined \<and> field submitted ''createdTime'' = JUndefined
        \<and> field submitted ''tenantId'' = JUndefined
        \<and> (\<forall>k. k \<notin> {''id'', ''createdTime'', ''tenantId'', ''configuration'', ''assignedCustomers''} \<longrightarrow>
               field submitted k = field content k))"
  apply (intro conjI)
          apply (rule backupRuleChain_writes)
         apply (rule backupWidgetBundle_writes)
        apply (rule backupDashboard_writes)
       apply (rule backupUser_writes)
      apply (rule backupCustomer_writes)
     apply (rule backupTenant_writes)
    apply (rule impI, erule backupDashboard_run)
   apply (rule impI, erule backupDevice_composite)
  apply (rule impI, erule restoreDashboard_submitted_fields)
  done

text \<open>
  Claim C3, as stated, fails: the exported file of dashboard \<open>Base\<close> is the fetched body,
  with its \<open>id\<close>, which is not the body without \<open>id\<close>, \<open>createdTime\<close> and
  \<open>tenantId\<close>.
\<close>

theorem export_keeps_ids:
  "fst (backupDashboard sourcePlant plantDir baseSummary) =
     [Call (GetDashboardById (JStr ''dash-1'')),
      Call (WriteFile ''backups/tenants/Plant/dashboards/Base.json'' baseDashboard)]
   \<and> sourcePlant (GetDashboardById (JStr ''dash-1'')) = Inr baseDashboard
   \<and> field baseDashboard ''id'' = JObj [(''entityType'', JStr ''DASHBOARD''), (''id'', JStr ''dash-1'')]
   \<and> stripIds baseDashboard \<noteq> Inr baseDashboard"
proof -
  have p: "path_join [plantDir, ''dashboards'', jsonFile (field baseSummary ''name'')]
      = ''backups/tenants/Plant/dashboards/Base.json''"
    using plantDir_dashboards by (simp add: baseSummary_def)
  have "fst (backupDashboard sourcePlant plantDir baseSummary) =
     [Call (GetDashboardById (JStr ''dash-1'')),
      Call (WriteFile ''backups/tenants/Plant/dashboards/Base.json'' baseDashboard)]"
    unfolding backupDashboard_def p
    by (simp add: fetchAndWrite_def baseSummary_def js_get_def nullish_def)
  moreover have "sourcePlant (GetDashboardById (JStr ''dash-1'')) = Inr baseDashboard" by simp
  moreover have "field baseDashboard ''id'' = JObj [(''entityType'', JStr ''DASHBOARD''), (''id'', JStr ''dash-1'')]"
    by (simp add: baseDashboard_def)
  moreover have "stripIds baseDashboard \<noteq> Inr baseDashboard"
    by (simp add: baseDashboard_def stripIds_def)
  ultimately show ?thesis by blast
qed


text \<open>
  The amended C3 on dashboard \<open>Base\<close> and device \<open>Sensor-7\<close>, and on the restore of
  the dashboard file \<open>Plain\<close>.
\<close>

theorem export_writes_fetched_body_witness:
  "backupDashboard sourcePlant plantDir baseSummary =
     ([Call (GetDashboardById (JStr ''dash-1'')),
       Call (WriteFile ''backups/tenants/Plant/dashboards/Base.json'' baseDashboard)], Inr ())
   \<and> (\<exists>sv'. fst (backupDevice sourcePlant plantDir sensorSummary) =
           [Call (GetDeviceAttributesByScope (JStr ''dev-7'') SERVER_SCOPE),
            Call (GetDeviceAttributesByScope (JStr ''dev-7'') SHARED_SCOPE),
            Call (GetDeviceAttributesByScope (JStr ''dev-7'') CLIENT_SCOPE),
            Call (GetDeviceCredentials (JStr ''dev-7'')),
            Call (WriteFile ''backups/tenants/Plant/devices/Sensor-7.json''
                   (JObj [(''accessToken'', JStr ''tok-7''),
                          (''attributes'',
                           JObj [(''server'', JArr sv'), (''shared'', JArr []), (''client'', JArr [])])]))]
         \<and> list_all2 withoutLastUpdateTs
              [JObj [(''lastUpdateTs'', JNum 1600000000001), (''key'', JStr ''a''), (''value'', JNum 1)]] sv')
   \<and> Call (SaveDashboard (JObj [(''title'', JStr ''Plain''), (''configuration'', JObj [(''entityAliases'', JObj [])])]))
        \<in> set (fst (restoreDashboard targetPlant [] plainDashboard))
   \<and> field (JObj [(''title'', JStr ''Plain''), (''configuration'', JObj [(''entityAliases'', JObj [])])]) ''id''
        = JUndefined
   \<and> field (JObj [(''title'', JStr ''Plain''), (''configuration'', JObj [(''entityAliases'', JObj [])])]) ''title''
        = field plainDashboard ''title''"
proof -
  let ?sv = "[JObj [(''lastUpdateTs'', JNum 1600000000001), (''key'', JStr ''a''), (''value'', JNum 1)]]"
  let ?cr = "JObj [(''credentialsType'', JStr ''ACCESS_TOKEN''), (''credentialsId'', JStr ''tok-7'')]"
  let ?b = "JObj [(''title'', JStr ''Plain''), (''configuration'', JObj [(''entityAliases'', JObj [])])]"
  note t = export_writes_fetched_body [where P = sourcePlant and tenantDir = plantDir
      and dashboard = baseSummary and dashboardId = "JStr ''dash-1''" and body = baseDashboard
      and device = sensorSummary and deviceId = "JStr ''dev-7''" and sv = ?sv and sh = "[]"
      and cl = "[]" and credentials = ?cr]
  note r = export_writes_fetched_body [where P = targetPlant and schedule = "[]"
      and content = plainDashboard and submitted = ?b]
  have h1: "js_path baseSummary [''id'', ''id''] = Inr (JStr ''dash-1'')
      \<and> sourcePlant (GetDashboardById (JStr ''dash-1'')) = Inr baseDashboard"
    by (simp add: baseSummary_def js_get_def nullish_def)
  have h2: "js_path sensorSummary [''id'', ''id''] = Inr (JStr ''dev-7'')
      \<and> sourcePlant (GetDeviceAttributesByScope (JStr ''dev-7'') SERVER_SCOPE) = Inr (JArr ?sv)
      \<and> sourcePlant (GetDeviceAttributesByScope (JStr ''dev-7'') SHARED_SCOPE) = Inr (JArr [])
      \<and> sourcePlant (GetDeviceAttributesByScope (JStr ''dev-7'') CLIENT_SCOPE) = Inr (JArr [])
      \<and> sourcePlant (GetDeviceCredentials (JStr ''dev-7'')) = Inr ?cr
      \<and> \<not> nullish ?cr
      \<and> (\<forall>item\<in>set (?sv @ [] @ []). \<not> nullish item)"
    by (simp add: sensorSummary_def js_get_def nullish_def)
  have s: "stripIds plainDashboard = Inr ?b" by (simp add: stripIds_def plainDashboard_def)
  have h3: "Call (SaveDashboard ?b) \<in> set (fst (restoreDashboard targetPlant [] plainDashboard))"
    by (simp add: restoreDashboard_def s restoreAliases_def restoreCustomers_def js_get_def
          nullish_def aliasCalls_def)
  have p1: "path_join [plantDir, ''dashboards'', jsonFile (field baseSummary ''name'')]
      = ''backups/tenants/Plant/dashboards/Base.json''"
    using plantDir_dashboards by (simp add: baseSummary_def)
  have p2: "path_join [plantDir, ''devices'', jsonFile (field sensorSummary ''name'')]
      = ''backups/tenants/Plant/devices/Sensor-7.json''"
    using plantDir_devices by (simp add: sensorSummary_def)
  from t [THEN conjunct2, THEN conjunct2, THEN conjunct2, THEN conjunct2, THEN conjunct2, THEN conjunct2, THEN conjunct1, THEN mp, OF h1]
  have "backupDashboard sourcePlant plantDir baseSummary =
        ([Call (GetDashboardById (JStr ''dash-1'')),
          Call (WriteFile (path_join [plantDir, ''dashboards'', jsonFile (field baseSummary ''name'')]) baseDashboard)],
         case sourcePlant (WriteFile (path_join [plantDir, ''dashboards'', jsonFile (field baseSummary ''name'')]) baseDashboard) of
           Inl e \<Rightarrow> Inl e | Inr u \<Rightarrow> Inr ())"
    .
  then have c1: "backupDashboard sourcePlant plantDir baseSummary =
     ([Call (GetDashboardById (JStr ''dash-1'')),
       Call (WriteFile ''backups/tenants/Plant/dashboards/Base.json'' baseDashboard)], Inr ())"
    unfolding p1 by simp
  from t [THEN conjunct2, THEN conjunct2, THEN conjunct2, THEN conjunct2, THEN conjunct2, THEN conjunct2, THEN conjunct2, THEN conjunct1, THEN mp, OF h2]
  have "\<exists>sv' sh' cl'.
         fst (backupDevice sourcePlant plantDir sensorSummary) =
           [Call (GetDeviceAttributesByScope (JStr ''dev-7'') SERVER_SCOPE),
            Call (GetDeviceAttributesByScope (JStr ''dev-7'') SHARED_SCOPE),
            Call (GetDeviceAttributesByScope (JStr ''dev-7'') CLIENT_SCOPE),
            Call (GetDeviceCredentials (JStr ''dev-7'')),
            Call (WriteFile (path_join [plantDir, ''devices'', jsonFile (field sensorSummary ''name'')])
                    (JObj [(''accessToken'', field ?cr ''credentialsId''),
                           (''attributes'',
                            JObj [(''server'', JArr sv'), (''shared'', JArr sh'), (''client'', JArr cl')])]))]
         \<and> list_all2 withoutLastUpdateTs ?sv sv'
         \<and> list_all2 withoutLastUpdateTs [] sh'
         \<and> list_all2 withoutLastUpdateTs [] cl'"
    .
  then have c2: "\<exists>sv'. fst (backupDevice sourcePlant plantDir sensorSummary) =
           [Call (GetDeviceAttributesByScope (JStr ''dev-7'') SERVER_SCOPE),
            Call (GetDeviceAttributesByScope (JStr ''dev-7'') SHARED_SCOPE),
            Call (GetDeviceAttributesByScope (JStr ''dev-7'') CLIENT_SCOPE),
            Call (GetDeviceCredentials (JStr ''dev-7'')),
            Call (WriteFile ''backups/tenants/Plant/devices/Sensor-7.json''
                   (JObj [(''accessToken'', JStr ''tok-7''),
                          (''attributes'',
                           JObj [(''server'', JArr sv'), (''shared'', JArr []), (''client'', JArr [])])]))]
         \<and> list_all2 withoutLastUpdateTs ?sv sv'"
    unfolding p2 by auto
  from r [THEN conjunct2, THEN conjunct2, THEN conjunct2, THEN conjunct2, THEN conjunct2, THEN conjunct2, THEN conjunct2, THEN conjunct2, THEN mp, OF h3]
  have c3: "field ?b ''id'' = JUndefined
      \<and> (\<forall>k. k \<notin> {''id'', ''createdTime'', ''tenantId'', ''configuration'', ''assignedCustomers''} \<longrightarrow>
               field ?b k = field plainDashboard k)"
    by simp
  from c3 [THEN conjunct2, THEN spec, of "''title''"]
  have c4: "field ?b ''title'' = field plainDashboard ''title''" by simp
  from c3 have c3': "field ?b ''id'' = JUndefined" by (rule conjunct1)
  show ?thesis by (intro conjI c1 c2 h3 c3' c4)
qed

subsection \<open>Export of widget bundles\<close>


















section \<open>Label: properties\<close>

text \<open>
  Claim C7.  A widget of kind \<open>alarm\<close> with one datasource whose first key is
  \<open>temperature\<close>, and a label for \<open>temperature\<close>: the widget's title is replaced.  The
  test \<open>widget.type === 'latest' || 'timeseries'\<close> holds for every kind.
\<close>

theorem label_relabels_other_kinds:
  "labelWidget deviceLabels alarmWidget =
     Inr (JObj [(''type'', JStr ''alarm''),
        (''config'', JObj [(''title'', JStr ''Boiler temperature''),
           (''datasources'', JArr [JObj [(''type'', JStr ''entity''),
               (''dataKeys'', JArr [JObj [(''name'', JStr ''temperature''),
                                          (''label'', JStr ''temperature'')]])]])])])"
  by (simp add: labelWidget_def alarmWidget_def deviceLabels_def labelOf_def js_or_def
        js_get_def nullish_def string_of_nat.simps digit_def)

section \<open>Clone: properties\<close>

lemma named_keys:
  "named ''filter''" "named ''configuration''" "named ''alias''" "named ''name''"
  "named ''title''" "named ''id''"
  by (simp_all add: named_def)

lemma cloneBody_result:
  assumes keys: "andThen (js_path body [''configuration'', ''entityAliases'']) js_keys = Inr (k # ks)"
      and se: "js_path body (aliasPath k @ [''filter'', ''singleEntity'']) = Inr (JObj se)"
      and st: "js_path body [''configuration'', ''states'', ''default''] = Inr (JObj st)"
      and live: "js_path device [''id'', ''id''] = Inr live"
  shows "\<exists>d. cloneBody device v body = Inr d
           \<and> js_path d (aliasIdPath k) = Inr live
           \<and> js_path d (aliasPath k @ [''alias'']) = Inr (field device ''name'')
           \<and> field d ''name'' = v \<and> field d ''title'' = v
           \<and> js_path d [''configuration'', ''states'', ''default'', ''name''] = Inr v
           \<and> field d ''id'' = JUndefined"
proof -
  let ?A = "aliasIdPath k" and ?B = "aliasPath k @ [''alias'']"
  let ?C = "[''configuration'', ''states'', ''default'', ''name'']"
  have A: "?A = (aliasPath k @ [''filter'', ''singleEntity'']) @ [''id'']"
    by (simp add: aliasIdPath_def)
  have dev: "js_get device ''name'' = Inr (field device ''name'')"
    using live by (auto simp: js_get_def andThen_Inr split: if_splits)
  \<comment> \<open>the alias id\<close>
  obtain d1 where d1: "js_set_path body ?A live = Inr d1"
    using js_set_path_succeeds [OF se] A by metis
  have a1: "js_path d1 ?A = Inr live"
    using js_set_path_same [OF d1] se by (simp add: A butlast_append)
  \<comment> \<open>the alias name\<close>
  have "js_set_path body ((aliasPath k @ [''filter'']) @ [''singleEntity'', ''id'']) live = Inr d1"
    using d1 by (simp add: aliasIdPath_def)
  then obtain f where f: "js_path d1 (aliasPath k @ [''filter'']) = Inr f" "container f"
    using js_set_path_prefix by blast
  then obtain fs1 where o1: "js_path d1 (aliasPath k) = Inr (JObj fs1)"
    using object_of_named_field [of d1 "aliasPath k" "''filter''" f] named_keys(1)
      container_defined [of f] by auto
  obtain d2 where d2: "js_set_path d1 ?B (field device ''name'') = Inr d2"
    using js_set_path_succeeds [OF o1] by blast
  have b2: "js_path d2 ?B = Inr (field device ''name'')"
    using js_set_path_same [OF d2] o1 by (simp add: butlast_append)
  have a2: "js_path d2 ?A = Inr live"
    using js_set_path_frame [OF d2, of ?A] a1 by (simp add: aliasIdPath_def aliasPath_def)
  \<comment> \<open>the state's name\<close>
  have "js_path d1 [''configuration'', ''states'', ''default''] = Inr (JObj st)"
    using js_set_path_frame [OF d1, of "[''configuration'', ''states'', ''default'']"] st
    by (simp add: aliasIdPath_def aliasPath_def)
  then have s2: "js_path d2 [''configuration'', ''states'', ''default''] = Inr (JObj st)"
    using js_set_path_frame [OF d2, of "[''configuration'', ''states'', ''default'']"]
    by (simp add: aliasPath_def)
  then obtain d3 where d3: "js_set_path d2 ?C v = Inr d3"
    using js_set_path_succeeds [of d2 "[''configuration'', ''states'', ''default'']" st "''name''" v]
    by auto
  have c3: "js_path d3 ?C = Inr v"
    using js_set_path_same [OF d3] s2 by simp
  have a3: "js_path d3 ?A = Inr live"
    using js_set_path_frame [OF d3, of ?A] a2 by (simp add: aliasIdPath_def aliasPath_def)
  have b3: "js_path d3 ?B = Inr (field device ''name'')"
    using js_set_path_frame [OF d3, of ?B] b2 by (simp add: aliasPath_def)
  \<comment> \<open>title, name and id of the dashboard itself\<close>
  have "js_set_path d2 ([''configuration''] @ [''states'', ''default'', ''name'']) v = Inr d3"
    using d3 by simp
  then obtain cf where cf: "js_path d3 [''configuration''] = Inr cf" "container cf"
    using js_set_path_prefix by blast
  then obtain fs3 where o3: "d3 = JObj fs3"
    using object_of_named_field [of d3 "[]" "''configuration''" cf] named_keys(2)
      container_defined [of cf] by auto
  let ?d = "JObj (AList.delete ''id'' (AList.update ''name'' v (AList.update ''title'' v fs3)))"
  have run: "cloneBody device v body = Inr ?d"
    using keys live d1 dev d2 d3 o3 unfolding cloneBody_def
    by (simp add: to_string.simps del: js_path.simps js_set_path.simps)
  have conf: "js_path ?d (''configuration'' # q) = js_path d3 (''configuration'' # q)" for q
    by (simp add: o3 js_get_def nullish_def update_conv' delete_conv')
  have "js_path ?d ?A = Inr live" "js_path ?d ?B = Inr (field device ''name'')"
       "js_path ?d ?C = Inr v"
    using conf a3 b3 c3 by (simp_all add: aliasIdPath_def aliasPath_def del: js_path.simps)
  moreover have "field ?d ''name'' = v" "field ?d ''title'' = v" "field ?d ''id'' = JUndefined"
    by (simp_all add: update_conv' delete_conv')
  ultimately show ?thesis using run by blast
qed


text \<open>
  Claim C9.  Let both lookups return a first entry, let the dashboard's body be fetched,
  let \<open>k\<close> be the first key of its entity aliases, with a \<open>filter.singleEntity\<close> object,
  let the body have a default state and the device an id.  Then the run is the two
  lookups, the fetch and the creation call, and the body submitted has the device's id as
  the first alias's embedded id, the device's name as its alias name, the \<open>name\<close>
  argument (the device's name when the argument is absent or empty) as \<open>name\<close> and
  \<open>title\<close>, and no \<open>id\<close>.  When the dashboard lookup has no first entry the run is that
  lookup, one console line and exit 1; likewise for the device lookup: nothing is created.
\<close>

theorem clone_rewrites_first_alias:
  "(P (GetDashboards (listParams (JStr dashboardName))) = Inr dashboards
      \<and> js_path dashboards [''data'', ''0''] = Inr dashboard \<and> truthy dashboard
      \<and> P (GetDevices (listParams (JStr deviceName))) = Inr devices
      \<and> js_path devices [''data'', ''0''] = Inr device \<and> truthy device
      \<and> js_path dashboard [''id'', ''id''] = Inr dashboardId
      \<and> P (GetDashboardById dashboardId) = Inr dashboardData
      \<and> andThen (js_path dashboardData [''configuration'', ''entityAliases'']) js_keys = Inr (k # ks)
      \<and> js_path dashboardData (aliasPath k @ [''filter'', ''singleEntity'']) = Inr (JObj se)
      \<and> js_path dashboardData [''configuration'', ''states'', ''default''] = Inr (JObj st)
      \<and> js_path device [''id'', ''id''] = Inr live \<longrightarrow>
      (\<exists>body rest.
         fst (clone P dashboardName deviceName name) =
           [Call (GetDashboards (listParams (JStr dashboardName))),
            Call (GetDevices (listParams (JStr deviceName))),
            Call (GetDashboardById dashboardId),
            Call (AxiosPost ''dashboard'' body)] @ rest
         \<and> js_path body (aliasIdPath k) = Inr live
         \<and> js_path body (aliasPath k @ [''alias'']) = Inr (field device ''name'')
         \<and> field body ''name'' = (if truthy name then name else field device ''name'')
         \<and> field body ''title'' = (if truthy name then name else field device ''name'')
         \<and> field body ''id'' = JUndefined))
   \<and> (P (GetDashboards (listParams (JStr dashboardName))) = Inr dashboards
      \<and> js_path dashboards [''data'', ''0''] = Inr dashboard \<and> \<not> truthy dashboard \<longrightarrow>
      clone P dashboardName deviceName name =
        ([Call (GetDashboards (listParams (JStr dashboardName))),
          ConsoleLog (JStr (''Dashboard '' @ dashboardName @ '' not found!'')), Exit 1], Inr ()))
   \<and> (P (GetDashboards (listParams (JStr dashboardName))) = Inr dashboards
      \<and> js_path dashboards [''data'', ''0''] = Inr dashboard \<and> truthy dashboard
      \<and> P (GetDevices (listParams (JStr deviceName))) = Inr devices
      \<and> js_path devices [''data'', ''0''] = Inr device \<and> \<not> truthy device \<longrightarrow>
      clone P dashboardName deviceName name =
        ([Call (GetDashboards (listParams (JStr dashboardName))),
          Call (GetDevices (listParams (JStr deviceName))),
          ConsoleLog (JStr (''Device '' @ deviceName @ '' not found!'')), Exit 1], Inr ()))"
proof -
  let ?q1 = "GetDashboards (listParams (JStr dashboardName))"
  let ?q2 = "GetDevices (listParams (JStr deviceName))"
  let ?v = "if truthy name then name else field device ''name''"
  have found: "\<exists>body rest.
         fst (clone P dashboardName deviceName name) =
           [Call ?q1, Call ?q2, Call (GetDashboardById dashboardId),
            Call (AxiosPost ''dashboard'' body)] @ rest
         \<and> js_path body (aliasIdPath k) = Inr live
         \<and> js_path body (aliasPath k @ [''alias'']) = Inr (field device ''name'')
         \<and> field body ''name'' = ?v \<and> field body ''title'' = ?v
         \<and> field body ''id'' = JUndefined"
    if h: "P ?q1 = Inr dashboards
      \<and> js_path dashboards [''data'', ''0''] = Inr dashboard \<and> truthy dashboard
      \<and> P ?q2 = Inr devices
      \<and> js_path devices [''data'', ''0''] = Inr device \<and> truthy device
      \<and> js_path dashboard [''id'', ''id''] = Inr dashboardId
      \<and> P (GetDashboardById dashboardId) = Inr dashboardData
      \<and> andThen (js_path dashboardData [''configuration'', ''entityAliases'']) js_keys = Inr (k # ks)
      \<and> js_path dashboardData (aliasPath k @ [''filter'', ''singleEntity'']) = Inr (JObj se)
      \<and> js_path dashboardData [''configuration'', ''states'', ''default''] = Inr (JObj st)
      \<and> js_path device [''id'', ''id''] = Inr live"
  proof -
    from h obtain body where b: "cloneBody device ?v dashboardData = Inr body"
        "js_path body (aliasIdPath k) = Inr live"
        "js_path body (aliasPath k @ [''alias'']) = Inr (field device ''name'')"
        "field body ''name'' = ?v" "field body ''title'' = ?v" "field body ''id'' = JUndefined"
      using cloneBody_result [of dashboardData k ks se st device live ?v] by blast
    have "\<exists>rest. fst (clone P dashboardName deviceName name) =
           [Call ?q1, Call ?q2, Call (GetDashboardById dashboardId),
            Call (AxiosPost ''dashboard'' body)] @ rest"
      using h b(1) unfolding clone_def
      by (simp add: js_or_def Let_def split: sum.splits del: js_path.simps)
    then show ?thesis using b(2-6) by blast
  qed
  have nodash: "clone P dashboardName deviceName name =
        ([Call ?q1, ConsoleLog (JStr (''Dashboard '' @ dashboardName @ '' not found!'')), Exit 1], Inr ())"
    if "P ?q1 = Inr dashboards
      \<and> js_path dashboards [''data'', ''0''] = Inr dashboard \<and> \<not> truthy dashboard"
    using that unfolding clone_def by (simp add: notFound_def Let_def del: js_path.simps)
  have nodev: "clone P dashboardName deviceName name =
        ([Call ?q1, Call ?q2,
          ConsoleLog (JStr (''Device '' @ deviceName @ '' not found!'')), Exit 1], Inr ())"
    if "P ?q1 = Inr dashboards
      \<and> js_path dashboards [''data'', ''0''] = Inr dashboard \<and> truthy dashboard
      \<and> P ?q2 = Inr devices
      \<and> js_path devices [''data'', ''0''] = Inr device \<and> \<not> truthy device"
    using that unfolding clone_def by (simp add: notFound_def Let_def del: js_path.simps)
  from found nodash nodev show ?thesis by blast
qed


text \<open>
  C9 on dashboard \<open>Base\<close> and device \<open>Sensor-7\<close> with no name argument, and on a
  dashboard and a device the target does not have.
\<close>

theorem clone_rewrites_first_alias_witness:
  "(\<exists>body rest.
      fst (clone targetClone ''base'' ''sensor-7'' JUndefined) =
        [Call (GetDashboards (listParams (JStr ''base''))),
         Call (GetDevices (listParams (JStr ''sensor-7''))),
         Call (GetDashboardById (JStr ''dash-1'')),
         Call (AxiosPost ''dashboard'' body)] @ rest
      \<and> js_path body (aliasIdPath ''a1'') = Inr (JStr ''dev-7'')
      \<and> js_path body (aliasPath ''a1'' @ [''alias'']) = Inr (JStr ''Sensor-7'')
      \<and> field body ''name'' = JStr ''Sensor-7''
      \<and> field body ''id'' = JUndefined)
   \<and> clone targetClone ''nope'' ''sensor-7'' JUndefined =
        ([Call (GetDashboards (listParams (JStr ''nope''))),
          ConsoleLog (JStr ''Dashboard nope not found!''), Exit 1], Inr ())
   \<and> clone targetClone ''base'' ''sensor-9'' JUndefined =
        ([Call (GetDashboards (listParams (JStr ''base''))),
          Call (GetDevices (listParams (JStr ''sensor-9''))),
          ConsoleLog (JStr ''Device sensor-9 not found!''), Exit 1], Inr ())"
proof -
  let ?sensor = "JObj [(''id'', JObj [(''id'', JStr ''dev-7'')]), (''name'', JStr ''Sensor-7'')]"
  let ?devices = "JObj [(''data'', JArr [?sensor])]"
  let ?empty = "JObj [(''data'', JArr [])]"
  let ?se = "[(''entityType'', JStr ''DEVICE''), (''id'', JStr ''dev-1'')]"
  let ?st = "[(''name'', JStr ''Base''), (''root'', JBool True)]"
  have q1: "targetClone (GetDashboards (listParams (JStr ''base''))) = Inr sourceDashboards"
      "js_path sourceDashboards [''data'', ''0''] = Inr baseSummary" "truthy baseSummary"
      "js_path baseSummary [''id'', ''id''] = Inr (JStr ''dash-1'')"
      "targetClone (GetDashboardById (JStr ''dash-1'')) = Inr baseDashboard"
    by (simp_all add: listParams_def sourceDashboards_def baseSummary_def js_get_def nullish_def
          string_of_nat.simps digit_def)
  have q2: "targetClone (GetDevices (listParams (JStr ''sensor-7''))) = Inr ?devices"
      "js_path ?devices [''data'', ''0''] = Inr ?sensor" "truthy ?sensor"
      "js_path ?sensor [''id'', ''id''] = Inr (JStr ''dev-7'')"
    by (simp_all add: listParams_def js_get_def nullish_def string_of_nat.simps digit_def)
  have b: "andThen (js_path baseDashboard [''configuration'', ''entityAliases'']) js_keys = Inr [''a1'']"
      "js_path baseDashboard (aliasPath ''a1'' @ [''filter'', ''singleEntity'']) = Inr (JObj ?se)"
      "js_path baseDashboard [''configuration'', ''states'', ''default''] = Inr (JObj ?st)"
    by (simp_all add: baseDashboard_def mkAlias_def aliasPath_def js_get_def nullish_def)
  note t1 = clone_rewrites_first_alias [where P = targetClone and dashboardName = "''base''"
      and deviceName = "''sensor-7''" and name = JUndefined and dashboards = sourceDashboards
      and dashboard = baseSummary and devices = ?devices and device = ?sensor
      and dashboardId = "JStr ''dash-1''" and dashboardData = baseDashboard and k = "''a1''"
      and ks = "[]" and se = ?se and st = ?st and live = "JStr ''dev-7''"]
  from t1 q1 q2 b have "\<exists>body rest.
         fst (clone targetClone ''base'' ''sensor-7'' JUndefined) =
           [Call (GetDashboards (listParams (JStr ''base''))),
            Call (GetDevices (listParams (JStr ''sensor-7''))),
            Call (GetDashboardById (JStr ''dash-1'')),
            Call (AxiosPost ''dashboard'' body)] @ rest
         \<and> js_path body (aliasIdPath ''a1'') = Inr (JStr ''dev-7'')
         \<and> js_path body (aliasPath ''a1'' @ [''alias'']) = Inr (field ?sensor ''name'')
         \<and> field body ''name'' = (if truthy JUndefined then JUndefined else field ?sensor ''name'')
         \<and> field body ''title'' = (if truthy JUndefined then JUndefined else field ?sensor ''name'')
         \<and> field body ''id'' = JUndefined"
    by blast
  then have c1: "\<exists>body rest.
      fst (clone targetClone ''base'' ''sensor-7'' JUndefined) =
        [Call (GetDashboards (listParams (JStr ''base''))),
         Call (GetDevices (listParams (JStr ''sensor-7''))),
         Call (GetDashboardById (JStr ''dash-1'')),
         Call (AxiosPost ''dashboard'' body)] @ rest
      \<and> js_path body (aliasIdPath ''a1'') = Inr (JStr ''dev-7'')
      \<and> js_path body (aliasPath ''a1'' @ [''alias'']) = Inr (JStr ''Sensor-7'')
      \<and> field body ''name'' = JStr ''Sensor-7''
      \<and> field body ''id'' = JUndefined"
    by (auto simp del: js_path.simps)
  have n1: "targetClone (GetDashboards (listParams (JStr ''nope''))) = Inr ?empty
      \<and> js_path ?empty [''data'', ''0''] = Inr JUndefined \<and> \<not> truthy JUndefined"
    by (simp add: listParams_def js_get_def nullish_def)
  note t2 = clone_rewrites_first_alias [where P = targetClone and dashboardName = "''nope''"
      and deviceName = "''sensor-7''" and name = JUndefined and dashboards = ?empty
      and dashboard = JUndefined]
  from t2 n1 have c2: "clone targetClone ''nope'' ''sensor-7'' JUndefined =
        ([Call (GetDashboards (listParams (JStr ''nope''))),
          ConsoleLog (JStr (''Dashboard '' @ ''nope'' @ '' not found!'')), Exit 1], Inr ())"
    by blast
  have n2: "targetClone (GetDevices (listParams (JStr ''sensor-9''))) = Inr ?empty
      \<and> js_path ?empty [''data'', ''0''] = Inr JUndefined \<and> \<not> truthy JUndefined"
    by (simp add: listParams_def js_get_def nullish_def)
  note t3 = clone_rewrites_first_alias [where P = targetClone and dashboardName = "''base''"
      and deviceName = "''sensor-9''" and name = JUndefined and dashboards = sourceDashboards
      and dashboard = baseSummary and devices = ?empty and device = JUndefined]
  from t3 q1(1-3) n2 have c3: "clone targetClone ''base'' ''sensor-9'' JUndefined =
        ([Call (GetDashboards (listParams (JStr ''base''))),
          Call (GetDevices (listParams (JStr ''sensor-9''))),
          ConsoleLog (JStr (''Device '' @ ''sensor-9'' @ '' not found!'')), Exit 1], Inr ())"
    by blast
  from c1 c2 c3 show ?thesis by simp
qed

end
